theory Spec2Isabelle
  imports Main "HOL-Library.Code_Target_Numeral"
begin

section \<open>JavaScript values\<close>

text \<open>
  The browser scripts of the repository (the shared demo logic for the detection pages and
  \<^verbatim>\<open>static/app.js\<close> for the explore page) are embedded function by function. Values
  that reach the scripts from JSON responses or option objects are primitive JavaScript
  values; numbers are restricted to the integers and \<^verbatim>\<open>NaN\<close>, which is what
  \<^verbatim>\<open>parseInt\<close> and \<^verbatim>\<open>Date.now()\<close> produce. \<open>JNum n\<close> is the Number that the
  integer literal \<open>n\<close> denotes: \<open>n\<close> itself below \<open>2 ^ 53\<close>, the nearest double
  otherwise. A missing field of an object reads as \<^verbatim>\<open>undefined\<close>. Console output is
  not part of the model.
\<close>

datatype jsval = JUndefined | JNull | JBool bool | JNum int | JNaN | JStr string

datatype js_error = TypeError | NotFoundError | SecurityError | HttpError nat | NetworkError

text \<open>Truthiness, as the conditions \<^verbatim>\<open>if (x)\<close>, \<^verbatim>\<open>x || y\<close> and \<^verbatim>\<open>x && y\<close> read it.\<close>

fun truthy :: "jsval \<Rightarrow> bool" where
  "truthy JUndefined = False"
| "truthy JNull = False"
| "truthy (JBool b) = b"
| "truthy (JNum n) = (n \<noteq> 0)"
| "truthy JNaN = False"
| "truthy (JStr s) = (s \<noteq> [])"

text \<open>A destructuring default \<^verbatim>\<open>{ x = d } = obj\<close> applies to \<^verbatim>\<open>undefined\<close> only.\<close>

fun dflt :: "jsval \<Rightarrow> jsval \<Rightarrow> jsval" where
  "dflt JUndefined d = d"
| "dflt v d = v"

text \<open>\<^verbatim>\<open>a || b\<close>\<close>

definition js_or :: "jsval \<Rightarrow> jsval \<Rightarrow> jsval" where
  "js_or a b = (if truthy a then a else b)"

definition digit_char :: "nat \<Rightarrow> char" where
  "digit_char d = ''0123456789'' ! d"

function showNat :: "nat \<Rightarrow> string" where
  "showNat n = (if n < 10 then [digit_char n] else showNat (n div 10) @ [digit_char (n mod 10)])"
  by pat_completeness auto
termination
  by (relation "measure id") auto

declare showNat.simps [simp del]

definition showInt :: "int \<Rightarrow> string" where
  "showInt i = (if i < 0 then CHR ''-'' # showNat (nat (- i)) else showNat (nat i))"

text \<open>
  The double nearest to a natural number: 53 significant bits, a tie going to the even
  significand.
\<close>

function bitLength :: "nat \<Rightarrow> nat" where
  "bitLength n = (if n = 0 then 0 else Suc (bitLength (n div 2)))"
  by pat_completeness auto
termination
  by (relation "measure id") auto

declare bitLength.simps [simp del]

definition toDouble :: "nat \<Rightarrow> nat" where
  "toDouble m =
     (let e = bitLength m - 53; q = m div 2 ^ e; r = m mod 2 ^ e
      in if 2 * r > 2 ^ e \<or> (2 * r = 2 ^ e \<and> odd q) then (q + 1) * 2 ^ e else q * 2 ^ e)"

text \<open>
  The digits of \<^verbatim>\<open>Number.prototype.toString\<close> for a double \<open>x\<close> that is an integer: the
  pair \<open>(s, j)\<close> with the fewest digits in \<open>s\<close> such that \<open>s * 10 ^ j\<close> denotes
  \<open>x\<close>; among two such \<open>s\<close> the one nearer to \<open>x\<close>, and the even one when they are
  equally near. The search tries the exponents from \<open>j\<close> downwards.
\<close>

fun shortest :: "nat \<Rightarrow> nat \<Rightarrow> nat \<times> nat" where
  "shortest x 0 = (x, 0)"
| "shortest x (Suc j) =
     (let lo = x div 10 ^ Suc j; hi = lo + 1;
          okLo = (0 < lo \<and> toDouble (lo * 10 ^ Suc j) = x);
          okHi = (toDouble (hi * 10 ^ Suc j) = x);
          dLo = x - lo * 10 ^ Suc j; dHi = hi * 10 ^ Suc j - x
      in if okLo \<and> okHi
         then (if dLo < dHi \<or> (dLo = dHi \<and> even lo) then (lo, Suc j) else (hi, Suc j))
         else if okLo then (lo, Suc j)
         else if okHi then (hi, Suc j)
         else shortest x j)"

text \<open>
  The text of such a double: \<^verbatim>\<open>Infinity\<close> from \<open>2 ^ 1024\<close> on, the digits followed
  by zeros up to 21 places, and the exponent form \<^verbatim>\<open>d.ddde+n\<close> beyond.
\<close>

definition showDouble :: "nat \<Rightarrow> string" where
  "showDouble x =
     (if bitLength x > 1024 then ''Infinity''
      else
        (let ds = showNat (fst (shortest x (length (showNat x))));
             j = snd (shortest x (length (showNat x)));
             n = length ds + j
         in if n \<le> 21 then ds @ replicate j (CHR ''0'')
            else (if length ds = 1 then ds else hd ds # CHR ''.'' # tl ds) @ ''e+'' @ showNat (n - 1)))"

text \<open>
  \<^verbatim>\<open>String(n)\<close> for a number. Below \<open>2 ^ 53\<close> every integer is a double and its
  shortest digits are its decimal numeral.
\<close>

definition numberToString :: "int \<Rightarrow> string" where
  "numberToString i =
     (if \<bar>i\<bar> < 9007199254740992 then showInt i
      else if i < 0 then CHR ''-'' # showDouble (toDouble (nat (- i)))
      else showDouble (toDouble (nat i)))"

text \<open>\<^verbatim>\<open>String(v)\<close>, the conversion a template literal applies.\<close>

fun toStr :: "jsval \<Rightarrow> string" where
  "toStr JUndefined = ''undefined''"
| "toStr JNull = ''null''"
| "toStr (JBool b) = (if b then ''true'' else ''false'')"
| "toStr (JNum n) = numberToString n"
| "toStr JNaN = ''NaN''"
| "toStr (JStr s) = s"

text \<open>Assigning to \<^verbatim>\<open>textContent\<close>: \<^verbatim>\<open>null\<close> gives the empty text.\<close>

definition textOf :: "jsval \<Rightarrow> string" where
  "textOf v = (if v = JNull then [] else toStr v)"

definition upper_char :: "char \<Rightarrow> char" where
  "upper_char c =
     (case map_of (zip ''abcdefghijklmnopqrstuvwxyz'' ''ABCDEFGHIJKLMNOPQRSTUVWXYZ'') c of
        Some u \<Rightarrow> u
      | None \<Rightarrow> c)"

text \<open>
  Strings are kept as their UTF-8 bytes. On a string of ASCII characters
  \<^verbatim>\<open>toUpperCase\<close> maps the letters \<^verbatim>\<open>a\<close> to \<^verbatim>\<open>z\<close>. On any other string the
  result is given by the case mapping of Unicode, which is not part of the model:
  \<open>unicodeUpper\<close> is some function on strings about which nothing is known.
\<close>

definition asciiOnly :: "string \<Rightarrow> bool" where
  "asciiOnly s = list_all (\<lambda>c. of_char c < (128::nat)) s"

definition unicodeUpper :: "string \<Rightarrow> string" where
  "unicodeUpper = (SOME f. True)"

text \<open>
  \<^verbatim>\<open>v.toUpperCase()\<close>: a method of strings only; on any other primitive the call
  raises a TypeError.
\<close>

fun toUpperCase :: "jsval \<Rightarrow> js_error + string" where
  "toUpperCase (JStr s) = Inr (if asciiOnly s then map upper_char s else unicodeUpper s)"
| "toUpperCase v = Inl TypeError"

section \<open>Alert presenter\<close>

text \<open>
  An alert card is the \<^verbatim>\<open>div.uf-alert\<close> element that \<^verbatim>\<open>showAlert\<close> builds, with
  the texts of its children. \<open>listeners\<close> counts the once-only \<^verbatim>\<open>animationend\<close>
  listeners registered on it and \<open>attached\<close> says whether it has a parent node.
\<close>

record card =
  classes :: "string list"
  chipClasses :: "string list"
  chipText :: string
  titleText :: string
  messageText :: string
  sourceText :: string
  timeStamp :: "jsval option"
  listeners :: nat
  attached :: bool

text \<open>
  The alert layer of a page: whether \<^verbatim>\<open>#alert-layer\<close> exists, every card created so far
  (a card is referred to by its position in \<open>cards\<close>), the children of the layer in
  document order, the pending \<^verbatim>\<open>setTimeout\<close> callbacks \<open>(delay in ms, card)\<close>, the
  frequencies of the tones started, and the \<^verbatim>\<open>removeChild\<close> calls made so far.
\<close>

record alert_ui =
  layer :: bool
  cards :: "card list"
  layerKids :: "nat list"
  timers :: "(nat \<times> nat) list"
  beeps :: "nat list"
  removed :: "nat list"

text \<open>The options object of \<^verbatim>\<open>showAlert\<close>; a missing field is \<open>JUndefined\<close>.\<close>

record options =
  otype :: jsval
  title :: jsval
  message :: jsval
  severity :: jsval
  source :: jsval
  timestamp :: jsval

definition no_options :: options where
  "no_options = \<lparr>otype = JUndefined, title = JUndefined, message = JUndefined,
     severity = JUndefined, source = JUndefined, timestamp = JUndefined\<rparr>"

text \<open>
  What the browser offers \<^verbatim>\<open>playBeep\<close>: no audio context constructor at all, one whose
  use raises, or a working one.
\<close>

datatype beep_env = NoAudioContext | AudioContextThrows | AudioContextOk

text \<open>\<^verbatim>\<open>playBeep\<close> of the detection pages: 1150 Hz for a critical alert, 880 Hz otherwise.\<close>

definition playBeep :: "beep_env \<Rightarrow> jsval \<Rightarrow> alert_ui \<Rightarrow> alert_ui" where
  "playBeep be sev ui =
     (case be of
        NoAudioContext \<Rightarrow> ui
      | AudioContextThrows \<Rightarrow> ui
      | AudioContextOk \<Rightarrow>
          ui\<lparr>beeps := beeps ui @ [if sev = JStr ''critical'' then 1150 else 880]\<rparr>)"

text \<open>\<^verbatim>\<open>playBeep\<close> of \<^verbatim>\<open>static/app.js\<close>: 1120 Hz for a critical alert.\<close>

definition playBeep_app :: "beep_env \<Rightarrow> jsval \<Rightarrow> alert_ui \<Rightarrow> alert_ui" where
  "playBeep_app be sev ui =
     (case be of
        NoAudioContext \<Rightarrow> ui
      | AudioContextThrows \<Rightarrow> ui
      | AudioContextOk \<Rightarrow>
          ui\<lparr>beeps := beeps ui @ [if sev = JStr ''critical'' then 1120 else 880]\<rparr>)"

definition severityClasses :: "jsval \<Rightarrow> string list" where
  "severityClasses sev =
     (if sev = JStr ''critical'' then [''uf-alert--critical'']
      else if sev = JStr ''warning'' then [''uf-alert--warning'']
      else [])"

definition chipClassesOf :: "jsval \<Rightarrow> string list" where
  "chipClassesOf ty =
     (if ty = JStr ''restricted'' \<or> ty = JStr ''unauthorized''
      then [''uf-alert-type-chip'', ''uf-alert-type-chip--restricted'']
      else [''uf-alert-type-chip''])"

definition sourceLine :: "jsval \<Rightarrow> string" where
  "sourceLine src = (if src = JStr ''frontend'' then ''Source: demo UI'' else ''Source: backend'')"

text \<open>
  \<^verbatim>\<open>showAlert\<close> of the detection pages. The result is \<open>Inl\<close> when the call raises into
  its caller; the elements created before the raise are unreachable, so the page is as it was.
\<close>

definition showAlert :: "beep_env \<Rightarrow> options option \<Rightarrow> alert_ui \<Rightarrow> js_error + alert_ui" where
  "showAlert be opts ui =
     (let ob = (case opts of None \<Rightarrow> no_options | Some x \<Rightarrow> x);
          ty = dflt (otype ob) (JStr ''info'');
          ti = dflt (title ob) (JStr ''Detection'');
          msg = dflt (message ob) (JStr ''An event occurred.'');
          sev = dflt (severity ob) (JStr ''warning'');
          src = dflt (source ob) (JStr ''frontend'')
      in if \<not> layer ui then Inr ui
         else
           (case toUpperCase ty of
              Inl e \<Rightarrow> Inl e
            | Inr up \<Rightarrow>
                (let box = \<lparr>classes = ''uf-alert'' # severityClasses sev,
                            chipClasses = chipClassesOf ty,
                            chipText = up,
                            titleText = textOf ti,
                            messageText = textOf msg,
                            sourceText = sourceLine src,
                            timeStamp = None,
                            listeners = 0,
                            attached = True\<rparr>;
                     n = length (cards ui);
                     ui1 = ui\<lparr>cards := cards ui @ [box], layerKids := layerKids ui @ [n]\<rparr>;
                     ui2 = playBeep be sev ui1
                 in Inr (ui2\<lparr>timers := timers ui2 @ [(4200, n)]\<rparr>))))"

text \<open>
  \<^verbatim>\<open>showAlert\<close> of \<^verbatim>\<open>static/app.js\<close>: other defaults, a time stamp line when
  \<^verbatim>\<open>timestamp\<close> is truthy, and a 4300 ms timer.
\<close>

definition showAlert_app :: "beep_env \<Rightarrow> options option \<Rightarrow> alert_ui \<Rightarrow> js_error + alert_ui" where
  "showAlert_app be opts ui =
     (let ob = (case opts of None \<Rightarrow> no_options | Some x \<Rightarrow> x);
          ty = dflt (otype ob) (JStr ''info'');
          ti = dflt (title ob) (JStr ''Detection'');
          msg = dflt (message ob) (JStr ''A new detection event has occurred.'');
          sev = dflt (severity ob) (JStr ''warning'');
          src = dflt (source ob) (JStr ''backend'');
          ts = timestamp ob
      in if \<not> layer ui then Inr ui
         else
           (case toUpperCase ty of
              Inl e \<Rightarrow> Inl e
            | Inr up \<Rightarrow>
                (let box = \<lparr>classes = ''uf-alert'' # severityClasses sev,
                            chipClasses = chipClassesOf ty,
                            chipText = up,
                            titleText = textOf ti,
                            messageText = textOf msg,
                            sourceText = sourceLine src,
                            timeStamp = (if truthy ts then Some ts else None),
                            listeners = 0,
                            attached = True\<rparr>;
                     n = length (cards ui);
                     ui1 = ui\<lparr>cards := cards ui @ [box], layerKids := layerKids ui @ [n]\<rparr>;
                     ui2 = playBeep_app be sev ui1
                 in Inr (ui2\<lparr>timers := timers ui2 @ [(4300, n)]\<rparr>))))"

text \<open>
  \<^verbatim>\<open>dismissAlert\<close> (the same text in both scripts). \<open>None\<close> is a null argument. A
  reference is always to an element that exists; on a number that names no card the model
  leaves the page unchanged.
\<close>

definition dismissAlert :: "nat option \<Rightarrow> alert_ui \<Rightarrow> alert_ui" where
  "dismissAlert el ui =
     (case el of
        None \<Rightarrow> ui
      | Some n \<Rightarrow>
          if n \<ge> length (cards ui) then ui
          else if ''uf-alert--leaving'' \<in> set (classes (cards ui ! n)) then ui
          else ui\<lparr>cards := (cards ui)[n := (cards ui ! n)
                 \<lparr>classes := classes (cards ui ! n) @ [''uf-alert--leaving''],
                  listeners := Suc (listeners (cards ui ! n))\<rparr>]\<rparr>)"

text \<open>
  One run of the listener that \<^verbatim>\<open>dismissAlert\<close> registers:
  \<^verbatim>\<open>if (el.parentNode) el.parentNode.removeChild(el)\<close>.
\<close>

definition removalListener :: "nat \<Rightarrow> alert_ui \<Rightarrow> alert_ui" where
  "removalListener n ui =
     (if n < length (cards ui) \<and> attached (cards ui ! n)
      then ui\<lparr>cards := (cards ui)[n := (cards ui ! n)\<lparr>attached := False\<rparr>],
              layerKids := removeAll n (layerKids ui),
              removed := removed ui @ [n]\<rparr>
      else ui)"

text \<open>
  The browser delivers \<^verbatim>\<open>animationend\<close> to card \<open>n\<close>: every listener registered on
  it runs, and being registered with \<^verbatim>\<open>once: true\<close> is then gone.
\<close>

definition animationend :: "nat \<Rightarrow> alert_ui \<Rightarrow> alert_ui" where
  "animationend n ui =
     (if n \<ge> length (cards ui) then ui
      else
        (let ui' = ((removalListener n) ^^ (listeners (cards ui ! n))) ui
         in ui'\<lparr>cards := (cards ui')[n := (cards ui' ! n)\<lparr>listeners := 0\<rparr>]\<rparr>))"

text \<open>\<^verbatim>\<open>clearAllAlerts\<close> of \<^verbatim>\<open>static/app.js\<close>: dismiss every card in the layer.\<close>

definition clearAllAlerts :: "alert_ui \<Rightarrow> alert_ui" where
  "clearAllAlerts ui =
     (if \<not> layer ui then ui else fold (\<lambda>a. dismissAlert (Some a)) (layerKids ui) ui)"

text \<open>
  What can happen on a page that shows alerts: a caller presents an alert (an exception
  raised into the caller leaves the page as it was), the close button of a card is clicked,
  the pending auto-dismiss timer of a card fires (it runs its callback once and is gone),
  the reset button is clicked, or an animation on a card ends.
\<close>

datatype ui_event =
    Show beep_env "options option"
  | ShowApp beep_env "options option"
  | ClickClose nat
  | TimerFires nat
  | ClearAll
  | AnimationEnd nat

fun ui_step :: "ui_event \<Rightarrow> alert_ui \<Rightarrow> alert_ui" where
  "ui_step (Show be opts) ui = (case showAlert be opts ui of Inl e \<Rightarrow> ui | Inr ui' \<Rightarrow> ui')"
| "ui_step (ShowApp be opts) ui = (case showAlert_app be opts ui of Inl e \<Rightarrow> ui | Inr ui' \<Rightarrow> ui')"
| "ui_step (ClickClose n) ui = dismissAlert (Some n) ui"
| "ui_step (TimerFires n) ui =
     (case find (\<lambda>t. snd t = n) (timers ui) of
        None \<Rightarrow> ui
      | Some t \<Rightarrow> dismissAlert (Some n) (ui\<lparr>timers := remove1 t (timers ui)\<rparr>))"
| "ui_step ClearAll ui = clearAllAlerts ui"
| "ui_step (AnimationEnd n) ui = animationend n ui"

definition ui_run :: "ui_event list \<Rightarrow> alert_ui \<Rightarrow> alert_ui" where
  "ui_run es ui = fold ui_step es ui"

definition empty_ui :: "bool \<Rightarrow> alert_ui" where
  "empty_ui l = \<lparr>layer = l, cards = [], layerKids = [], timers = [], beeps = [], removed = []\<rparr>"

section \<open>Alert presenter: invariant and statement predicates\<close>

text \<open>
  The state a card can be in, as an invariant of every page reachable by \<open>ui_step\<close>: a card
  that is not leaving has no listener, is attached and still has its timer pending; a leaving
  card that is attached has exactly one listener; a detached card has none; the card was
  removed once if it is detached and never otherwise; it is a child of the layer exactly when
  it is attached.
\<close>

definition card_inv :: "alert_ui \<Rightarrow> nat \<Rightarrow> bool" where
  "card_inv ui n = (let c = cards ui ! n in
     (''uf-alert--leaving'' \<notin> set (classes c) \<longrightarrow> listeners c = 0 \<and> attached c \<and> (\<exists>d. (d, n) \<in> set (timers ui))) \<and>
     (''uf-alert--leaving'' \<in> set (classes c) \<and> attached c \<longrightarrow> listeners c = 1) \<and>
     (\<not> attached c \<longrightarrow> listeners c = 0) \<and>
     count_list (removed ui) n = (if attached c then 0 else 1) \<and>
     (n \<in> set (layerKids ui) \<longleftrightarrow> attached c))"

text \<open>Every card is in such a state, and every reference is to a card that exists.\<close>

definition ui_inv :: "alert_ui \<Rightarrow> bool" where
  "ui_inv ui = ((\<forall>n < length (cards ui). card_inv ui n) \<and>
      (\<forall>n \<in> set (layerKids ui). n < length (cards ui)) \<and>
      (\<forall>n \<in> set (removed ui). n < length (cards ui)) \<and>
      (\<forall>t \<in> set (timers ui). snd t < length (cards ui)))"

text \<open>The \<^verbatim>\<open>type\<close> field of the options is missing or a string.\<close>

definition typeIsText :: "options option \<Rightarrow> bool" where
  "typeIsText opts =
     (case opts of
        None \<Rightarrow> True
      | Some ob \<Rightarrow> (case otype ob of JUndefined \<Rightarrow> True | JStr s \<Rightarrow> True | _ \<Rightarrow> False))"

text \<open>
  The call returned normally and its whole effect on the document is one new card, appended to
  the layer, with its auto-dismiss timer of the given delay pending.
\<close>

definition inserted_one :: "nat \<Rightarrow> alert_ui \<Rightarrow> js_error + alert_ui \<Rightarrow> bool" where
  "inserted_one delay ui r =
     (case r of
        Inl e \<Rightarrow> False
      | Inr ui' \<Rightarrow>
          length (cards ui') = Suc (length (cards ui)) \<and>
          take (length (cards ui)) (cards ui') = cards ui \<and>
          layerKids ui' = layerKids ui @ [length (cards ui)] \<and>
          timers ui' = timers ui @ [(delay, length (cards ui))] \<and>
          removed ui' = removed ui)"

text \<open>The style classes of a card follow the severity.\<close>

definition styled_by :: "jsval \<Rightarrow> card \<Rightarrow> bool" where
  "styled_by sev c =
     ((''uf-alert--critical'' \<in> set (classes c) \<longleftrightarrow> sev = JStr ''critical'') \<and>
      (''uf-alert--warning'' \<in> set (classes c) \<longleftrightarrow> sev = JStr ''warning'') \<and>
      (sev \<noteq> JStr ''critical'' \<and> sev \<noteq> JStr ''warning'' \<longrightarrow> classes c = [''uf-alert'']))"

text \<open>
  The tones started by one call: one tone when the audio context works and none otherwise;
  a tone is in 1120..1150 Hz exactly for a critical alert and is 880 Hz otherwise.
\<close>

definition tone_by :: "jsval \<Rightarrow> beep_env \<Rightarrow> nat list \<Rightarrow> nat list \<Rightarrow> bool" where
  "tone_by sev be before after =
     ((be = AudioContextOk \<longrightarrow> (\<exists>f. after = before @ [f])) \<and>
      (be \<noteq> AudioContextOk \<longrightarrow> after = before) \<and>
      (\<forall>f. after = before @ [f] \<longrightarrow>
         ((1120 \<le> f \<and> f \<le> 1150) \<longleftrightarrow> sev = JStr ''critical'') \<and>
         (sev \<noteq> JStr ''critical'' \<longrightarrow> f = 880)))"


section \<open>Detection pollers\<close>

text \<open>
  The four page initialisers \<^verbatim>\<open>initSmoking\<close>, \<^verbatim>\<open>initUnauthorized\<close>,
  \<^verbatim>\<open>initRestricted\<close> and \<^verbatim>\<open>initPPE\<close> each close over the same variables. A page
  session is the record of these variables together with what the model observes of the
  side effects: the calls of \<^verbatim>\<open>emergencyAudio.play()\<close> and the POST requests to the
  \<^verbatim>\<open>send-alert-email\<close> endpoint.
\<close>

datatype domain = Smoking | Unauthorized | Restricted | PPE

text \<open>A status element, as far as the pollers write to it: its text and its text colour.\<close>

record label =
  caption :: string
  colour :: string

text \<open>
  A call of \<^verbatim>\<open>postJson\<close> to a \<^verbatim>\<open>send-alert-email\<close> endpoint: the address and the
  fields of the payload object as the caller passes them (\<^verbatim>\<open>postJson\<close> serialises the
  object with \<^verbatim>\<open>JSON.stringify\<close>, which is not part of the model). \<open>sentAt\<close> is the
  \<^verbatim>\<open>now\<close> of the call.
\<close>

record email_req =
  sentAt :: int
  url :: string
  detail :: jsval
  camera :: jsval

text \<open>
  \<open>status\<close> is the status element of the detection camera (\<^verbatim>\<open>s2\<close> on the smoking
  page, \<^verbatim>\<open>s1\<close> on the restricted page, \<^verbatim>\<open>status\<close> on the other two) and
  \<open>lastResult\<close> the last-result element; either is \<open>None\<close> when the page has no such
  element. \<open>cameraIndex\<close> is the index of the detection camera. \<open>pending\<close> are the
  requests whose response has not arrived yet.
\<close>

record page =
  status :: "label option"
  lastResult :: "label option"
  alertLayer :: alert_ui
  lastEmergencySoundTime :: int
  emergencyAudio :: bool
  lastEmailAlertTime :: int
  cameraIndex :: jsval
  soundPlays :: "int list"
  emailPosts :: "email_req list"
  pending :: "email_req list"

definition EMERGENCY_SOUND_COOLDOWN :: int where
  "EMERGENCY_SOUND_COOLDOWN = 30000"

definition EMAIL_ALERT_COOLDOWN :: int where
  "EMAIL_ALERT_COOLDOWN = 60000"

text \<open>The state in which an initialiser leaves the page before any event.\<close>

definition init_page :: "label option \<Rightarrow> label option \<Rightarrow> bool \<Rightarrow> jsval \<Rightarrow> page" where
  "init_page st lr hasLayer cam =
     \<lparr>status = st, lastResult = lr, alertLayer = empty_ui hasLayer,
      lastEmergencySoundTime = 0, emergencyAudio = False, lastEmailAlertTime = 0,
      cameraIndex = cam, soundPlays = [], emailPosts = [], pending = []\<rparr>"

text \<open>The result of \<^verbatim>\<open>await postJson(...)\<close>: it raised, or it gave the parsed response.\<close>

datatype 'a fetched = Failed js_error | Got 'a

text \<open>The response of a \<^verbatim>\<open>check\<close> endpoint; a field it does not have is \<open>JUndefined\<close>.\<close>

record check_res =
  res_error :: jsval
  res_unauthorized :: jsval
  res_reason :: jsval
  res_person_name :: jsval
  res_intruder :: jsval
  res_violation :: jsval
  res_confidence :: jsval
  res_smoke_detected :: jsval
  res_fire_detected :: jsval
  res_smoke_confidence :: jsval
  res_fire_confidence :: jsval

definition no_res :: check_res where
  "no_res = \<lparr>res_error = JUndefined, res_unauthorized = JUndefined, res_reason = JUndefined,
     res_person_name = JUndefined, res_intruder = JUndefined, res_violation = JUndefined,
     res_confidence = JUndefined, res_smoke_detected = JUndefined, res_fire_detected = JUndefined,
     res_smoke_confidence = JUndefined, res_fire_confidence = JUndefined\<rparr>"

text \<open>The response of a \<^verbatim>\<open>send-alert-email\<close> endpoint.\<close>

record email_res =
  res_ok :: jsval
  res_why :: jsval
  res_message :: jsval

text \<open>
  What one poll tick finds around it: the two readings of \<^verbatim>\<open>Date.now()\<close> (one in
  \<^verbatim>\<open>playEmergencySound\<close>, one in \<^verbatim>\<open>sendEmailAlert\<close>), what the attempt to play the
  emergency sound does, what the browser offers \<^verbatim>\<open>playBeep\<close>, and the rendering
  \<^verbatim>\<open>(c * 100).toFixed(0)\<close> of a confidence, which is floating-point arithmetic and is
  taken as given.
\<close>

datatype audio_env = AudioCtorThrows | AudioPlayThrows | AudioPlays

record env =
  nowSound :: int
  nowEmail :: int
  audio :: audio_env
  beep :: beep_env
  pct :: "jsval \<Rightarrow> string"

text \<open>The non-ASCII characters of the page texts, as their UTF-8 bytes.\<close>

definition emoji_fire :: string where
  "emoji_fire = [CHR 0xF0, CHR 0x9F, CHR 0x94, CHR 0xA5]"

definition emoji_siren :: string where
  "emoji_siren = [CHR 0xF0, CHR 0x9F, CHR 0x9A, CHR 0xA8]"

definition check_mark :: string where
  "check_mark = [CHR 0xE2, CHR 0x9C, CHR 0x93]"

definition warning_sign :: string where
  "warning_sign = [CHR 0xE2, CHR 0x9A, CHR 0xA0, CHR 0xEF, CHR 0xB8, CHR 0x8F]"

definition en_dash :: string where
  "en_dash = [CHR 0xE2, CHR 0x80, CHR 0x93]"

definition ellipsis :: string where
  "ellipsis = [CHR 0xE2, CHR 0x80, CHR 0xA6]"

text \<open>\<^verbatim>\<open>if (el) el.textContent = s\<close> and \<^verbatim>\<open>el.style.color = c\<close> on an element that may be null.\<close>

definition setText :: "string \<Rightarrow> label option \<Rightarrow> label option" where
  "setText s el = (case el of None \<Rightarrow> None | Some l \<Rightarrow> Some (l\<lparr>caption := s\<rparr>))"

definition setTextColor :: "string \<Rightarrow> string \<Rightarrow> label option \<Rightarrow> label option" where
  "setTextColor s c el = (case el of None \<Rightarrow> None | Some l \<Rightarrow> Some (l\<lparr>caption := s, colour := c\<rparr>))"

text \<open>
  \<^verbatim>\<open>playEmergencySound\<close>, the same text in all four initialisers. When the constructor
  \<^verbatim>\<open>new Audio\<close> or the playback raises, the \<^verbatim>\<open>catch\<close> leaves the time stamp as it was.
\<close>

definition playEmergencySound :: "audio_env \<Rightarrow> int \<Rightarrow> page \<Rightarrow> page" where
  "playEmergencySound ae now p =
     (let timeSinceLastPlay = now - lastEmergencySoundTime p
      in if timeSinceLastPlay \<ge> EMERGENCY_SOUND_COOLDOWN
         then (if \<not> emergencyAudio p \<and> ae = AudioCtorThrows then p
               else (let p1 = p\<lparr>emergencyAudio := True\<rparr>
                     in if ae = AudioPlayThrows then p1
                        else p1\<lparr>soundPlays := soundPlays p1 @ [now],
                                lastEmergencySoundTime := now\<rparr>))
         else p)"

definition emailUrl :: "domain \<Rightarrow> string" where
  "emailUrl d =
     (case d of
        Smoking \<Rightarrow> ''/api/demo/smoking/send-alert-email''
      | Unauthorized \<Rightarrow> ''/api/demo/unauthorized/send-alert-email''
      | Restricted \<Rightarrow> ''/api/demo/restricted/send-alert-email''
      | PPE \<Rightarrow> ''/api/demo/ppe/send-alert-email'')"

text \<open>
  \<^verbatim>\<open>sendEmailAlert\<close> up to its \<^verbatim>\<open>await\<close>: the part that runs inside the poll tick. The
  argument \<open>dt\<close> is \<^verbatim>\<open>detectionType\<close> on the smoking page and \<^verbatim>\<open>personInfo\<close> on the
  unauthorized page; the other two pages send the camera index only.
\<close>

definition sendEmailAlert :: "domain \<Rightarrow> jsval \<Rightarrow> int \<Rightarrow> page \<Rightarrow> page" where
  "sendEmailAlert d dt now p =
     (let timeSinceLastEmail = now - lastEmailAlertTime p
      in if timeSinceLastEmail \<ge> EMAIL_ALERT_COOLDOWN
         then (let rq = \<lparr>sentAt = now, url = emailUrl d, detail = dt, camera = cameraIndex p\<rparr>
               in p\<lparr>emailPosts := emailPosts p @ [rq], pending := pending p @ [rq]\<rparr>)
         else p)"

text \<open>
  \<^verbatim>\<open>err.status\<close> and \<^verbatim>\<open>err.response\<close> of what \<^verbatim>\<open>postJson\<close> raises: an
  \<^verbatim>\<open>Error("HTTP " + resp.status)\<close> or the error of \<^verbatim>\<open>fetch\<close> or of \<^verbatim>\<open>resp.json()\<close>;
  none of them has either property.
\<close>

definition errStatus :: "js_error \<Rightarrow> jsval" where
  "errStatus e = JUndefined"

definition errResponseStatus :: "js_error \<Rightarrow> jsval option" where
  "errResponseStatus e = None"

text \<open>
  \<^verbatim>\<open>sendEmailAlert\<close> after its \<^verbatim>\<open>await\<close>: the continuation that runs when the response
  to the request issued at \<open>now\<close> arrives. Three pages record the time only on
  \<^verbatim>\<open>res.ok\<close>; the restricted page also moves the time stamp when the backend reports
  throttling.
\<close>

definition emailReply :: "domain \<Rightarrow> int \<Rightarrow> email_res fetched \<Rightarrow> page \<Rightarrow> page" where
  "emailReply d now r p =
     (case r of
        Got res \<Rightarrow>
          if truthy (res_ok res) then p\<lparr>lastEmailAlertTime := now\<rparr>
          else if d = Restricted \<and> res_why res = JStr ''throttled''
          then p\<lparr>lastEmailAlertTime := now - (EMAIL_ALERT_COOLDOWN - 1000)\<rparr>
          else p
      | Failed err \<Rightarrow>
          if d = Restricted \<and>
             (errStatus err = JNum 429 \<or>
              (case errResponseStatus err of None \<Rightarrow> False | Some s \<Rightarrow> s = JNum 429))
          then p\<lparr>lastEmailAlertTime := now - (EMAIL_ALERT_COOLDOWN - 1000)\<rparr>
          else p)"

text \<open>
  What every positive detection does first: the popup, the emergency sound gate, the email
  gate. \<open>None\<close> when \<^verbatim>\<open>showAlert\<close> raised, which sends the tick to its \<^verbatim>\<open>catch\<close>.
\<close>

definition raiseAlarm :: "domain \<Rightarrow> env \<Rightarrow> options \<Rightarrow> jsval \<Rightarrow> page \<Rightarrow> page option" where
  "raiseAlarm d ev opts dt p =
     (case showAlert (beep ev) (Some opts) (alertLayer p) of
        Inl e \<Rightarrow> None
      | Inr ui' \<Rightarrow>
          Some (sendEmailAlert d dt (nowEmail ev)
                 (playEmergencySound (audio ev) (nowSound ev) (p\<lparr>alertLayer := ui'\<rparr>))))"

definition alertOptions :: "string \<Rightarrow> string \<Rightarrow> string \<Rightarrow> options" where
  "alertOptions ty ti msg =
     \<lparr>otype = JStr ty, title = JStr ti, message = JStr msg,
      severity = JStr ''critical'', source = JStr ''backend'', timestamp = JUndefined\<rparr>"

definition confText :: "env \<Rightarrow> jsval \<Rightarrow> string" where
  "confText ev c = (if truthy c then '' ('' @ pct ev c @ ''%)'' else [])"

text \<open>\<^verbatim>\<open>performCheck\<close> of \<^verbatim>\<open>initSmoking\<close>, from the arrival of the check response on.\<close>

definition performCheck_smoking :: "env \<Rightarrow> check_res fetched \<Rightarrow> page \<Rightarrow> page" where
  "performCheck_smoking ev r p =
     (let caught = p\<lparr>status := setText ''Error checking. See console.'' (status p)\<rparr>
      in case r of
        Failed e \<Rightarrow> caught
      | Got res \<Rightarrow>
          if res_error res = JStr ''camera_not_available''
          then p\<lparr>status := setText ''Camera not ready...'' (status p)\<rparr>
          else if res_error res = JStr ''model_not_loaded''
          then p\<lparr>status := setText ''Smoke model not loaded. Check server logs.'' (status p)\<rparr>
          else
            (let smokeDetected = res_smoke_detected res;
                 fireDetected = res_fire_detected res
             in if truthy fireDetected \<and> truthy smokeDetected
                then (case raiseAlarm Smoking ev
                             (alertOptions ''smoking''
                                (emoji_fire @ '' CRITICAL: Smoke AND Fire Detected!'')
                                ''Smoke and fire detected in monitoring zone. Evacuate immediately and contact emergency services!'')
                             (JStr ''both'') p of
                        None \<Rightarrow> caught
                      | Some p1 \<Rightarrow>
                          p1\<lparr>lastResult := setTextColor (emoji_fire @ '' CRITICAL - Smoke & Fire detected!'')
                                 ''#ff4444'' (lastResult p1),
                              status := setText (emoji_fire @ '' CRITICAL: SMOKE + FIRE DETECTED!'') (status p1)\<rparr>)
                else if truthy fireDetected
                then (case raiseAlarm Smoking ev
                             (alertOptions ''smoking''
                                (emoji_fire @ '' Fire Detected!'')
                                ''Fire detected in monitoring zone. Take immediate action!'')
                             (JStr ''fire'') p of
                        None \<Rightarrow> caught
                      | Some p1 \<Rightarrow>
                          p1\<lparr>lastResult := setTextColor
                                 (emoji_fire @ '' FIRE detected'' @ confText ev (res_fire_confidence res) @ ''!'')
                                 ''#ff4444'' (lastResult p1),
                              status := setText (emoji_fire @ '' FIRE DETECTED!'') (status p1)\<rparr>)
                else if truthy smokeDetected
                then (case raiseAlarm Smoking ev
                             (alertOptions ''smoking''
                                (emoji_siren @ '' Smoke Detected!'')
                                ''Smoke detected in non-smoking zone. HSE and security are notified.'')
                             (JStr ''smoke'') p of
                        None \<Rightarrow> caught
                      | Some p1 \<Rightarrow>
                          p1\<lparr>lastResult := setTextColor
                                 (emoji_siren @ '' SMOKE detected'' @ confText ev (res_smoke_confidence res) @ ''!'')
                                 ''#ffaa00'' (lastResult p1),
                              status := setText (emoji_siren @ '' SMOKE DETECTED!'') (status p1)\<rparr>)
                else p\<lparr>lastResult := setTextColor (check_mark @ '' All clear - No smoke or fire detected'')
                              ''#44ff44'' (lastResult p),
                        status := setText (check_mark @ '' Monitoring - No hazards detected'') (status p)\<rparr>))"

text \<open>
  \<^verbatim>\<open>performCheck\<close> of \<^verbatim>\<open>initUnauthorized\<close>. Its \<^verbatim>\<open>catch\<close> only writes to the console.
  \<^verbatim>\<open>"Last result: authorized as " + name\<close> converts \<^verbatim>\<open>name\<close> to a string.
\<close>

definition performCheck_unauthorized :: "env \<Rightarrow> check_res fetched \<Rightarrow> page \<Rightarrow> page" where
  "performCheck_unauthorized ev r p =
     (case r of
        Failed e \<Rightarrow> p
      | Got res \<Rightarrow>
          if res_error res = JStr ''camera_not_available''
          then p\<lparr>status := setText ''Camera not ready...'' (status p)\<rparr>
          else if truthy (res_unauthorized res) \<and> res_reason res \<noteq> JStr ''no_face''
          then (case raiseAlarm Unauthorized ev
                       (alertOptions ''unauthorized''
                          ''Unauthorized / unknown person detected''
                          ''Face is not in the authorized list. Please verify and respond according to procedure.'')
                       (JStr ''Unknown person'') p of
                  None \<Rightarrow> p
                | Some p1 \<Rightarrow>
                    p1\<lparr>lastResult := setText ''Last result: UNAUTHORIZED (unknown person).'' (lastResult p1)\<rparr>)
          else if \<not> truthy (res_unauthorized res)
          then (let name = js_or (res_person_name res) (JStr ''Known person'')
                in p\<lparr>lastResult := setText (''Last result: authorized as '' @ toStr name @ ''.'')
                                      (lastResult p)\<rparr>)
          else if res_reason res = JStr ''no_face''
          then p\<lparr>lastResult := setText ''Last result: No face detected.'' (lastResult p)\<rparr>
          else p)"

text \<open>\<^verbatim>\<open>performCheck\<close> of \<^verbatim>\<open>initRestricted\<close>.\<close>

definition performCheck_restricted :: "env \<Rightarrow> check_res fetched \<Rightarrow> page \<Rightarrow> page" where
  "performCheck_restricted ev r p =
     (case r of
        Failed e \<Rightarrow> p
      | Got res \<Rightarrow>
          if res_error res = JStr ''camera_not_available''
          then p\<lparr>status := setText ''Camera not ready...'' (status p)\<rparr>
          else if truthy (res_intruder res)
          then (case raiseAlarm Restricted ev
                       (alertOptions ''restricted''
                          ''Restricted area breach detected''
                          ''A person has been detected inside the restricted safety zone. Initiate response plan.'')
                       JUndefined p of
                  None \<Rightarrow> p
                | Some p1 \<Rightarrow> p1)
          else p)"

text \<open>\<^verbatim>\<open>performCheck\<close> of \<^verbatim>\<open>initPPE\<close>.\<close>

definition performCheck_ppe :: "env \<Rightarrow> check_res fetched \<Rightarrow> page \<Rightarrow> page" where
  "performCheck_ppe ev r p =
     (let caught = p\<lparr>status := setText ''Error checking PPE. See console.'' (status p)\<rparr>
      in case r of
        Failed e \<Rightarrow> caught
      | Got res \<Rightarrow>
          if res_error res = JStr ''camera_not_available''
          then p\<lparr>status := setText ''Camera not ready...'' (status p)\<rparr>
          else if res_error res = JStr ''model_not_loaded''
          then p\<lparr>status := setText ''PPE model not loaded. Check server logs.'' (status p)\<rparr>
          else if truthy (res_violation res)
          then (case raiseAlarm PPE ev
                       (alertOptions ''ppe''
                          (''PPE Violation '' @ en_dash @ '' Hardhat Not Detected'')
                          ''Worker detected without a hardhat in a mandatory PPE zone. Please intervene immediately.'')
                       JUndefined p of
                  None \<Rightarrow> caught
                | Some p1 \<Rightarrow>
                    p1\<lparr>lastResult := setTextColor (warning_sign @ '' VIOLATION - No hardhat detected!'')
                           ''#ff4444'' (lastResult p1),
                        status := setText (warning_sign @ '' PPE VIOLATION DETECTED!'') (status p1)\<rparr>)
          else p\<lparr>lastResult := setTextColor
                        (check_mark @ '' OK - Hardhat detected'' @ confText ev (res_confidence res))
                        ''#44ff44'' (lastResult p),
                  status := setText (check_mark @ '' PPE Compliant - Hardhat detected'') (status p)\<rparr>)"

definition performCheck :: "domain \<Rightarrow> env \<Rightarrow> check_res fetched \<Rightarrow> page \<Rightarrow> page" where
  "performCheck d =
     (case d of
        Smoking \<Rightarrow> performCheck_smoking
      | Unauthorized \<Rightarrow> performCheck_unauthorized
      | Restricted \<Rightarrow> performCheck_restricted
      | PPE \<Rightarrow> performCheck_ppe)"

text \<open>
  The events of a page session: the response of a poll tick arrives; the response to the
  pending email request number \<open>k\<close> arrives; the user selects another detection camera
  (the handler also re-attaches the stream, which is the subject of the camera section);
  something happens in the alert layer.
\<close>

datatype poll_event =
    CheckDone env "check_res fetched"
  | EmailDone nat "email_res fetched"
  | CameraSelected jsval
  | Ui ui_event

fun poll_step :: "domain \<Rightarrow> poll_event \<Rightarrow> page \<Rightarrow> page" where
  "poll_step d (CheckDone ev r) p = performCheck d ev r p"
| "poll_step d (EmailDone k r) p =
     (if k < length (pending p)
      then emailReply d (sentAt (pending p ! k)) r
             (p\<lparr>pending := take k (pending p) @ drop (Suc k) (pending p)\<rparr>)
      else p)"
| "poll_step d (CameraSelected v) p = p\<lparr>cameraIndex := v\<rparr>"
| "poll_step d (Ui e) p = p\<lparr>alertLayer := ui_step e (alertLayer p)\<rparr>"

definition poll_run :: "domain \<Rightarrow> poll_event list \<Rightarrow> page \<Rightarrow> page" where
  "poll_run d es p = fold (poll_step d) es p"


section \<open>Detection pollers: statement predicates\<close>

text \<open>Neither throttle gate was touched between two states of the page.\<close>

definition gates_untouched :: "page \<Rightarrow> page \<Rightarrow> bool" where
  "gates_untouched p p' =
     (lastEmergencySoundTime p' = lastEmergencySoundTime p \<and>
      emergencyAudio p' = emergencyAudio p \<and>
      soundPlays p' = soundPlays p \<and>
      lastEmailAlertTime p' = lastEmailAlertTime p \<and>
      emailPosts p' = emailPosts p \<and>
      pending p' = pending p)"

text \<open>No popup was produced: the alert layer, its cards, timers and tones are as before.\<close>

definition no_popup :: "page \<Rightarrow> page \<Rightarrow> bool" where
  "no_popup p p' = (alertLayer p' = alertLayer p)"


text \<open>
  The tick is a positive detection: the response takes \<^verbatim>\<open>performCheck\<close> into a branch
  that raises the alarm.
\<close>

fun detects :: "domain \<Rightarrow> check_res fetched \<Rightarrow> bool" where
  "detects d (Failed e) = False"
| "detects Smoking (Got res) =
     (res_error res \<noteq> JStr ''camera_not_available'' \<and> res_error res \<noteq> JStr ''model_not_loaded'' \<and>
      (truthy (res_fire_detected res) \<or> truthy (res_smoke_detected res)))"
| "detects Unauthorized (Got res) =
     (res_error res \<noteq> JStr ''camera_not_available'' \<and>
      truthy (res_unauthorized res) \<and> res_reason res \<noteq> JStr ''no_face'')"
| "detects Restricted (Got res) =
     (res_error res \<noteq> JStr ''camera_not_available'' \<and> truthy (res_intruder res))"
| "detects PPE (Got res) =
     (res_error res \<noteq> JStr ''camera_not_available'' \<and> res_error res \<noteq> JStr ''model_not_loaded'' \<and>
      truthy (res_violation res))"

text \<open>The detail a positive detection sends with its email request.\<close>

fun detailOf :: "domain \<Rightarrow> check_res fetched \<Rightarrow> jsval" where
  "detailOf Smoking (Got res) =
     (if truthy (res_fire_detected res) \<and> truthy (res_smoke_detected res) then JStr ''both''
      else if truthy (res_fire_detected res) then JStr ''fire''
      else JStr ''smoke'')"
| "detailOf Unauthorized r = JStr ''Unknown person''"
| "detailOf d r = JUndefined"

text \<open>The attempt to play the emergency sound raises (and is caught).\<close>

definition soundRaises :: "audio_env \<Rightarrow> page \<Rightarrow> bool" where
  "soundRaises ae p = ((\<not> emergencyAudio p \<and> ae = AudioCtorThrows) \<or> ae = AudioPlayThrows)"



text \<open>The part of a page that the two gates read and write.\<close>

definition gateView :: "page \<Rightarrow> int \<times> bool \<times> int list \<times> int \<times> email_req list \<times> email_req list \<times> jsval" where
  "gateView p = (lastEmergencySoundTime p, emergencyAudio p, soundPlays p, lastEmailAlertTime p,
      emailPosts p, pending p, cameraIndex p)"

text \<open>The response \<^verbatim>\<open>{unauthorized: true, reason: "no_face"}\<close>.\<close>

definition noFace :: check_res where
  "noFace = no_res\<lparr>res_unauthorized := JBool True, res_reason := JStr ''no_face''\<rparr>"

text \<open>The options of the popup of the unauthorized page.\<close>

definition unauthorizedAlarm :: options where
  "unauthorizedAlarm = alertOptions ''unauthorized'' ''Unauthorized / unknown person detected''
     ''Face is not in the authorized list. Please verify and respond according to procedure.''"


text \<open>Concrete inputs for the witnesses and counterexamples: a tick whose clocks both read \<open>t\<close>, responses of the check endpoints and of the email endpoint.\<close>

definition tickAt :: "int \<Rightarrow> env" where
  "tickAt t = \<lparr>nowSound = t, nowEmail = t, audio = AudioPlays, beep = AudioContextOk, pct = toStr\<rparr>"


definition smokeSeen :: check_res where
  "smokeSeen = no_res\<lparr>res_smoke_detected := JBool True\<rparr>"

definition emailOk :: email_res where
  "emailOk = \<lparr>res_ok = JBool True, res_why = JUndefined, res_message = JUndefined\<rparr>"

definition emailFailed :: email_res where
  "emailFailed = \<lparr>res_ok = JBool False, res_why = JUndefined, res_message = JStr ''SMTP error''\<rparr>"

definition emailThrottled :: email_res where
  "emailThrottled = \<lparr>res_ok = JBool False, res_why = JStr ''throttled'', res_message = JUndefined\<rparr>"

definition intruderSeen :: check_res where
  "intruderSeen = no_res\<lparr>res_intruder := JBool True\<rparr>"

definition strangerSeen :: check_res where
  "strangerSeen = no_res\<lparr>res_unauthorized := JBool True, res_reason := JStr ''unknown_face''\<rparr>"

text \<open>A page with a status element, a last-result element and an alert layer, before any event.\<close>

definition demoPage :: page where
  "demoPage = init_page (Some \<lparr>caption = ''Idle'', colour = []\<rparr>)
     (Some \<lparr>caption = ''Last result: none'', colour = []\<rparr>) True (JNum 0)"

section \<open>Camera attacher\<close>

text \<open>
  The part of the document that \<^verbatim>\<open>attachCamera\<close> and \<^verbatim>\<open>captureFrame\<close> touch. A node is
  referred to by its position in \<open>nodes\<close>; \<^verbatim>\<open>document.createElement\<close> appends a node.
  An event handler set by \<^verbatim>\<open>attachCamera\<close> is the closure
  \<^verbatim>\<open>() => { if (statusEls[i]) statusEls[i].textContent = msg }\<close>, kept as the status element
  and the message.
\<close>

datatype handler = StatusHandler "nat option" string

record element =
  tagName :: string
  elemId :: string
  className :: string
  cssText :: string
  styleWidth :: string
  styleHeight :: string
  styleObjectFit :: string
  src :: string
  textContent :: string
  parentNode :: "nat option"
  childNodes :: "nat list"
  onload :: "handler option"
  onerror :: "handler option"
  videoWidth :: nat
  videoHeight :: nat
  naturalWidth :: nat
  naturalHeight :: nat
  width :: nat
  height :: nat

text \<open>
  \<open>camTimers\<close> are the pending one-second fallback timers \<open>(delay, status element,
  message)\<close> of \<^verbatim>\<open>attachCamera\<close>.
\<close>

record dom =
  nodes :: "element list"
  camTimers :: "(nat \<times> nat \<times> string) list"

text \<open>
  \<^verbatim>\<open>arr[i]\<close> on an array of element references: \<^verbatim>\<open>undefined\<close> beyond the end. A
  reference is null (\<open>None\<close>) or names a node; a number that names no node cannot occur
  in the program and is treated like null.
\<close>

definition at :: "nat option list \<Rightarrow> nat \<Rightarrow> nat option" where
  "at xs i = (if i < length xs then xs ! i else None)"

definition deref :: "dom \<Rightarrow> nat option \<Rightarrow> nat option" where
  "deref d r = (case r of None \<Rightarrow> None | Some n \<Rightarrow> if n < length (nodes d) then Some n else None)"

text \<open>
  \<^verbatim>\<open>if (el) el.textContent = msg\<close>. Assigning to \<^verbatim>\<open>textContent\<close> removes every
  child of the element before it sets the text: each node whose parent is the element loses
  its parent and leaves the list of children of the element. (Text nodes are not nodes of
  the model: the text that the assignment puts into the element is its \<open>textContent\<close>.)
\<close>

definition setStatus :: "nat option \<Rightarrow> string \<Rightarrow> dom \<Rightarrow> dom" where
  "setStatus r msg d =
     (case deref d r of
        None \<Rightarrow> d
      | Some s \<Rightarrow>
          (let ns = map (\<lambda>e. if parentNode e = Some s then e\<lparr>parentNode := None\<rparr> else e) (nodes d)
           in d\<lparr>nodes := ns[s := (ns ! s)
                \<lparr>textContent := msg,
                 childNodes := filter (\<lambda>k. \<not> (k < length (nodes d) \<and> parentNode (nodes d ! k) = Some s))
                                 (childNodes (ns ! s))\<rparr>]\<rparr>))"

text \<open>
  The \<^verbatim>\<open>img\<close> element that replaces a \<^verbatim>\<open>video\<close> element: id, class and inline style are
  copied, then the source and three style properties are set.
\<close>

definition newImg :: "element \<Rightarrow> string \<Rightarrow> element" where
  "newImg v streamUrl =
     \<lparr>tagName = ''IMG'', elemId = elemId v, className = className v, cssText = cssText v,
      styleWidth = ''100%'', styleHeight = ''auto'', styleObjectFit = ''cover'',
      src = streamUrl, textContent = [], parentNode = None, childNodes = [],
      onload = None, onerror = None,
      videoWidth = 0, videoHeight = 0, naturalWidth = 0, naturalHeight = 0, width = 0, height = 0\<rparr>"

definition createImg :: "element \<Rightarrow> string \<Rightarrow> dom \<Rightarrow> dom" where
  "createImg v streamUrl d = d\<lparr>nodes := nodes d @ [newImg v streamUrl]\<rparr>"

text \<open>
  \<^verbatim>\<open>par.replaceChild(new, old)\<close>: a NotFoundError unless \<open>old\<close> is a child of
  \<open>par\<close>; otherwise \<open>new\<close> takes the place of \<open>old\<close> among the children.
\<close>

definition replaceChild :: "nat \<Rightarrow> nat \<Rightarrow> nat \<Rightarrow> dom \<Rightarrow> js_error + dom" where
  "replaceChild par new old d =
     (if old \<ge> length (nodes d) \<or> parentNode (nodes d ! old) \<noteq> Some par then Inl NotFoundError
      else
        (let ns1 = (nodes d)[par := (nodes d ! par)
                      \<lparr>childNodes := map (\<lambda>k. if k = old then new else k) (childNodes (nodes d ! par))\<rparr>];
             ns2 = ns1[new := (ns1 ! new)\<lparr>parentNode := Some par\<rparr>];
             ns3 = ns2[old := (ns2 ! old)\<lparr>parentNode := None\<rparr>]
         in Inr (d\<lparr>nodes := ns3\<rparr>)))"

text \<open>\<^verbatim>\<open>cameraIndices[i] !== undefined ? cameraIndices[i] : (cameraIndices[0] || 0)\<close>\<close>

definition camIndexOf :: "jsval list \<Rightarrow> nat \<Rightarrow> jsval" where
  "camIndexOf cis i =
     (if i < length cis \<and> cis ! i \<noteq> JUndefined then cis ! i
      else js_or (if 0 < length cis then cis ! 0 else JUndefined) (JNum 0))"

definition streamUrlOf :: "jsval \<Rightarrow> string" where
  "streamUrlOf camIndex = ''/video_feed/'' @ toStr camIndex"

definition setHandlers :: "nat \<Rightarrow> nat option \<Rightarrow> jsval \<Rightarrow> dom \<Rightarrow> dom" where
  "setHandlers n st camIndex d =
     d\<lparr>nodes := (nodes d)[n := (nodes d ! n)
        \<lparr>onload := Some (StatusHandler st (''Live (Camera '' @ toStr camIndex @ '')'')),
         onerror := Some (StatusHandler st (''Camera '' @ toStr camIndex @ '' connection failed''))\<rparr>]\<rparr>"

text \<open>\<^verbatim>\<open>if (statusEls[i]) setTimeout(..., 1000)\<close>\<close>

definition armFallback :: "nat option \<Rightarrow> jsval \<Rightarrow> dom \<Rightarrow> dom" where
  "armFallback st camIndex d =
     (case deref d st of
        None \<Rightarrow> d
      | Some s \<Rightarrow> d\<lparr>camTimers := camTimers d @ [(1000, s, ''Live (Camera '' @ toStr camIndex @ '')'')]\<rparr>)"

text \<open>
  One pass of the \<^verbatim>\<open>for\<close> loop of the indexed branch, on slot \<open>i\<close>. The state is the
  array \<^verbatim>\<open>videoEls\<close> (the loop stores the new image in it) and the document. Every
  \<^verbatim>\<open>continue\<close> leaves before the fallback timer is armed.
\<close>

definition attachSlot ::
  "jsval list \<Rightarrow> nat option list \<Rightarrow> nat \<Rightarrow> nat option list \<times> dom \<Rightarrow> nat option list \<times> dom" where
  "attachSlot cis ss i s =
     (let vs = fst s; d = snd s; camIndex = camIndexOf cis i; st = at ss i
      in case deref d (at vs i) of
           None \<Rightarrow> (vs, setStatus st (''Camera '' @ toStr camIndex @ '' element not found'') d)
         | Some v \<Rightarrow>
             (let streamUrl = streamUrlOf camIndex; el = nodes d ! v
              in if tagName el = ''VIDEO''
                 then (case parentNode el of
                         None \<Rightarrow> (vs, setStatus st (''Camera '' @ toStr camIndex @ '' element not in DOM'') d)
                       | Some par \<Rightarrow>
                           (let n = length (nodes d); d1 = createImg el streamUrl d
                            in case replaceChild par n v d1 of
                                 Inl e \<Rightarrow> (vs, setStatus st (''Camera '' @ toStr camIndex @ '' setup failed'') d1)
                               | Inr d2 \<Rightarrow>
                                   (vs[i := Some n], armFallback st camIndex (setHandlers n st camIndex d2))))
                 else if tagName el = ''IMG''
                 then (vs, armFallback st camIndex
                             (setHandlers v st camIndex
                                (d\<lparr>nodes := (nodes d)[v := el\<lparr>src := streamUrl\<rparr>]\<rparr>)))
                 else (vs, armFallback st camIndex
                             (setStatus st (''Camera '' @ toStr camIndex @ '' unsupported element type'') d))))"

text \<open>
  One call of the \<^verbatim>\<open>forEach\<close> callback of the default branch; a failed replacement is only
  logged.
\<close>

definition attachDefaultSlot :: "nat option \<Rightarrow> dom \<Rightarrow> dom" where
  "attachDefaultSlot r d =
     (case deref d r of
        None \<Rightarrow> d
      | Some v \<Rightarrow>
          (let el = nodes d ! v
           in case parentNode el of
                None \<Rightarrow> d
              | Some par \<Rightarrow>
                  (let streamUrl = streamUrlOf (JNum 0)
                   in if tagName el = ''VIDEO''
                      then (let n = length (nodes d); d1 = createImg el streamUrl d
                            in case replaceChild par n v d1 of Inl e \<Rightarrow> d1 | Inr d2 \<Rightarrow> d2)
                      else if tagName el = ''IMG''
                      then d\<lparr>nodes := (nodes d)[v := el\<lparr>src := streamUrl\<rparr>]\<rparr>
                      else d)))"




text \<open>
  What the browser does afterwards: the stream of an image loads or fails (its handler
  runs), or a fallback timer fires.
\<close>

definition runHandler :: "handler option \<Rightarrow> dom \<Rightarrow> dom" where
  "runHandler h d = (case h of None \<Rightarrow> d | Some (StatusHandler st msg) \<Rightarrow> setStatus st msg d)"

definition fallbackFires :: "nat \<Rightarrow> dom \<Rightarrow> dom" where
  "fallbackFires k d =
     (if k < length (camTimers d)
      then (let s = fst (snd (camTimers d ! k)); msg = snd (snd (camTimers d ! k));
                d1 = d\<lparr>camTimers := take k (camTimers d) @ drop (Suc k) (camTimers d)\<rparr>
            in if s < length (nodes d1) \<and> textContent (nodes d1 ! s) = ''Connecting to camera'' @ ellipsis
               then setStatus (Some s) msg d1 else d1)
      else d)"

section \<open>Frame capture\<close>

text \<open>
  \<^verbatim>\<open>captureFrame(video)\<close>. The canvas part (create a canvas of the given size, draw the
  element, serialise as JPEG of quality 0.8) is the browser's; \<open>cv el w h\<close> is what it
  gives for the element at that size: the data URL, or the exception raised on the way.
  \<open>None\<close> is \<^verbatim>\<open>null\<close>, as argument and as result.
\<close>

definition captureFrame ::
  "(element \<Rightarrow> nat \<Rightarrow> nat \<Rightarrow> js_error + string) \<Rightarrow> element option \<Rightarrow> string option" where
  "captureFrame cv video =
     (case video of
        None \<Rightarrow> None
      | Some el \<Rightarrow>
          (let size =
                 (if tagName el = ''VIDEO''
                  then (if videoWidth el = 0 then None else Some (videoWidth el, videoHeight el))
                  else if tagName el = ''IMG''
                  then (if naturalWidth el > 0 then Some (naturalWidth el, naturalHeight el)
                        else if width el > 0 then Some (width el, height el)
                        else Some (640, 480))
                  else None)
           in case size of
                None \<Rightarrow> None
              | Some (w, h) \<Rightarrow> (case cv el w h of Inl e \<Rightarrow> None | Inr dataUrl \<Rightarrow> Some dataUrl)))"


section \<open>Camera attacher and frame capture: statement predicates\<close>

text \<open>Concrete inputs for the witnesses: a canvas that serialises a 640x480 frame, one that always raises, and an element with no dimensions.\<close>

definition blankCanvas :: "element \<Rightarrow> nat \<Rightarrow> nat \<Rightarrow> js_error + string" where
  "blankCanvas el w h =
     (if w = 640 \<and> h = 480 then Inr ''data:image/jpeg;base64,/9j/4AAQ'' else Inl SecurityError)"

definition noCanvas :: "element \<Rightarrow> nat \<Rightarrow> nat \<Rightarrow> js_error + string" where
  "noCanvas el w h = Inl SecurityError"

definition emptyElement :: "string \<Rightarrow> element" where
  "emptyElement tag =
     \<lparr>tagName = tag, elemId = [], className = [], cssText = [],
      styleWidth = [], styleHeight = [], styleObjectFit = [],
      src = [], textContent = [], parentNode = None, childNodes = [],
      onload = None, onerror = None,
      videoWidth = 0, videoHeight = 0, naturalWidth = 0, naturalHeight = 0, width = 0, height = 0\<rparr>"





text \<open>
  The element \<open>k\<close> is not a child of one of the status elements \<open>ss\<close>: it has no
  parent, or its parent is none of them.
\<close>

definition outside :: "nat option list \<Rightarrow> dom \<Rightarrow> nat \<Rightarrow> bool" where
  "outside ss d k = (parentNode (nodes d ! k) = None \<or> parentNode (nodes d ! k) \<notin> set ss)"










section \<open>Alert presenter: proofs\<close>

lemma numberToString_small [simp]: "\<bar>i\<bar> < 9007199254740992 \<Longrightarrow> numberToString i = showInt i"
  by (simp add: numberToString_def)

lemma unicodeUpper_code [code]:
  "unicodeUpper s = Code.abort (STR ''unicodeUpper: case mapping outside ASCII'') (\<lambda>_. unicodeUpper s)"
  by simp

lemma asciiOnly_Nil [simp]: "asciiOnly []"
  by (simp add: asciiOnly_def)

lemma asciiOnly_Cons [simp]: "asciiOnly (c # s) = (of_char c < (128::nat) \<and> asciiOnly s)"
  by (simp add: asciiOnly_def)

lemma inv_empty: "ui_inv (empty_ui l)"
  by (simp add: ui_inv_def empty_ui_def)

lemma dismiss_simps [simp]:
  "layer (dismissAlert el ui) = layer ui"
  "layerKids (dismissAlert el ui) = layerKids ui"
  "timers (dismissAlert el ui) = timers ui"
  "beeps (dismissAlert el ui) = beeps ui"
  "removed (dismissAlert el ui) = removed ui"
  "length (cards (dismissAlert el ui)) = length (cards ui)"
  by (auto simp: dismissAlert_def split: option.splits)

lemma dismiss_other: "el \<noteq> Some n \<Longrightarrow> cards (dismissAlert el ui) ! n = cards ui ! n"
  by (cases el) (auto simp: dismissAlert_def nth_list_update)

lemma dismiss_same: "n < length (cards ui) \<Longrightarrow> cards (dismissAlert (Some n) ui) ! n =
  (if ''uf-alert--leaving'' \<in> set (classes (cards ui ! n)) then cards ui ! n
   else (cards ui ! n)\<lparr>classes := classes (cards ui ! n) @ [''uf-alert--leaving''],
                  listeners := Suc (listeners (cards ui ! n))\<rparr>)"
  by (auto simp: dismissAlert_def)

lemma dismiss_card_inv: "n < length (cards ui) \<Longrightarrow> card_inv ui n \<Longrightarrow> card_inv (dismissAlert el ui) n"
  apply (cases "el = Some n")
   apply (auto simp: card_inv_def Let_def dismiss_same dismiss_other)
  done

lemma dismiss_inv: "ui_inv ui \<Longrightarrow> ui_inv (dismissAlert el ui)"
  by (simp add: ui_inv_def dismiss_card_inv)

lemma card_inv_timers_cong:
  "card_inv ui n \<Longrightarrow> cards ui' = cards ui \<Longrightarrow> removed ui' = removed ui \<Longrightarrow> layerKids ui' = layerKids ui
   \<Longrightarrow> (''uf-alert--leaving'' \<notin> set (classes (cards ui ! n)) \<longrightarrow> (\<exists>d. (d, n) \<in> set (timers ui')))
   \<Longrightarrow> card_inv ui' n"
  by (auto simp: card_inv_def Let_def)

lemma showAlert_shape:
  assumes "showAlert be opts ui = Inr ui'" "layer ui"
  shows "\<exists>c. cards ui' = cards ui @ [c] \<and> layerKids ui' = layerKids ui @ [length (cards ui)]
      \<and> timers ui' = timers ui @ [(4200, length (cards ui))] \<and> removed ui' = removed ui \<and> layer ui'
      \<and> listeners c = 0 \<and> attached c \<and> ''uf-alert--leaving'' \<notin> set (classes c)"
  using assms
  by (auto simp: showAlert_def Let_def playBeep_def severityClasses_def split: sum.splits beep_env.splits if_splits)

lemma showAlert_app_shape:
  assumes "showAlert_app be opts ui = Inr ui'" "layer ui"
  shows "\<exists>c. cards ui' = cards ui @ [c] \<and> layerKids ui' = layerKids ui @ [length (cards ui)]
      \<and> timers ui' = timers ui @ [(4300, length (cards ui))] \<and> removed ui' = removed ui \<and> layer ui'
      \<and> listeners c = 0 \<and> attached c \<and> ''uf-alert--leaving'' \<notin> set (classes c)"
  using assms
  by (auto simp: showAlert_app_def Let_def playBeep_app_def severityClasses_def split: sum.splits beep_env.splits if_splits)

lemma showAlert_nolayer: "\<not> layer ui \<Longrightarrow> showAlert be opts ui = Inr ui"
  by (simp add: showAlert_def Let_def)

lemma showAlert_app_nolayer: "\<not> layer ui \<Longrightarrow> showAlert_app be opts ui = Inr ui"
  by (simp add: showAlert_app_def Let_def)

lemma append_card_inv:
  assumes inv: "ui_inv ui"
    and sh: "cards ui' = cards ui @ [c]" "layerKids ui' = layerKids ui @ [length (cards ui)]"
      "timers ui' = timers ui @ [(d, length (cards ui))]" "removed ui' = removed ui"
      "listeners c = 0" "attached c" "''uf-alert--leaving'' \<notin> set (classes c)"
  shows "ui_inv ui'"
proof -
  have old: "card_inv ui' n" if "n < length (cards ui)" for n
  proof -
    have "card_inv ui n" using inv that by (simp add: ui_inv_def)
    then show ?thesis using that sh
      by (auto simp: card_inv_def Let_def nth_append)
  qed
  have nk: "length (cards ui) \<notin> set (layerKids ui)" "length (cards ui) \<notin> set (removed ui)"
    using inv by (auto simp: ui_inv_def)
  have new: "card_inv ui' (length (cards ui))"
    using sh nk by (auto simp: card_inv_def Let_def nth_append count_list_0_iff)
  show ?thesis
    unfolding ui_inv_def
    using inv old new sh by (auto simp: ui_inv_def less_Suc_eq)
qed

lemma show_inv: "ui_inv ui \<Longrightarrow> ui_inv (ui_step (Show be opts) ui)"
proof (cases "showAlert be opts ui")
  case (Inl e)
  assume "ui_inv ui"
  then show ?thesis using Inl by simp
next
  case (Inr ui')
  assume inv: "ui_inv ui"
  show ?thesis
  proof (cases "layer ui")
    case True
    from showAlert_shape [OF Inr True] obtain c where
      "cards ui' = cards ui @ [c]" "layerKids ui' = layerKids ui @ [length (cards ui)]"
      "timers ui' = timers ui @ [(4200, length (cards ui))]" "removed ui' = removed ui"
      "listeners c = 0" "attached c" "''uf-alert--leaving'' \<notin> set (classes c)"
      by blast
    then have "ui_inv ui'" by (rule append_card_inv [OF inv])
    then show ?thesis using Inr by simp
  next
    case False
    then show ?thesis using inv by (simp add: showAlert_nolayer)
  qed
qed

lemma showApp_inv: "ui_inv ui \<Longrightarrow> ui_inv (ui_step (ShowApp be opts) ui)"
proof (cases "showAlert_app be opts ui")
  case (Inl e)
  assume "ui_inv ui"
  then show ?thesis using Inl by simp
next
  case (Inr ui')
  assume inv: "ui_inv ui"
  show ?thesis
  proof (cases "layer ui")
    case True
    from showAlert_app_shape [OF Inr True] obtain c where
      "cards ui' = cards ui @ [c]" "layerKids ui' = layerKids ui @ [length (cards ui)]"
      "timers ui' = timers ui @ [(4300, length (cards ui))]" "removed ui' = removed ui"
      "listeners c = 0" "attached c" "''uf-alert--leaving'' \<notin> set (classes c)"
      by blast
    then have "ui_inv ui'" by (rule append_card_inv [OF inv])
    then show ?thesis using Inr by simp
  next
    case False
    then show ?thesis using inv by (simp add: showAlert_app_nolayer)
  qed
qed

lemma clear_inv: "ui_inv ui \<Longrightarrow> ui_inv (clearAllAlerts ui)"
proof -
  have "ui_inv u \<Longrightarrow> ui_inv (fold (\<lambda>a. dismissAlert (Some a)) xs u)" for xs u
    by (induction xs arbitrary: u) (auto simp: dismiss_inv)
  then show "ui_inv ui \<Longrightarrow> ui_inv (clearAllAlerts ui)"
    by (simp add: clearAllAlerts_def)
qed

lemma timer_inv: "ui_inv ui \<Longrightarrow> ui_inv (ui_step (TimerFires n) ui)"
proof (cases "find (\<lambda>t. snd t = n) (timers ui)")
  case None
  assume "ui_inv ui"
  then show ?thesis using None by simp
next
  case (Some t)
  assume inv: "ui_inv ui"
  from Some have tn: "snd t = n" "t \<in> set (timers ui)"
    by (auto simp: find_Some_iff)
  then have nlt: "n < length (cards ui)" using inv by (auto simp: ui_inv_def)
  let ?u = "ui\<lparr>timers := remove1 t (timers ui)\<rparr>"
  let ?v = "dismissAlert (Some n) ?u"
  have len: "length (cards ?v) = length (cards ui)" by simp
  have other: "card_inv ?v m" if "m < length (cards ui)" "m \<noteq> n" for m
  proof -
    have a: "card_inv ui m" using inv that by (simp add: ui_inv_def)
    have "(d, m) \<in> set (timers ui) \<Longrightarrow> (d, m) \<in> set (remove1 t (timers ui))" for d
      using tn that by (cases t) (auto simp: in_set_remove1)
    then show ?thesis using a that
      by (auto simp: card_inv_def Let_def dismiss_other)
  qed
  have same: "card_inv ?v n"
  proof -
    have a: "card_inv ui n" using inv nlt by (simp add: ui_inv_def)
    then show ?thesis using nlt
      by (auto simp: card_inv_def Let_def dismiss_same)
  qed
  have cards: "\<forall>m < length (cards ?v). card_inv ?v m"
    using other same len by metis
  have rest: "(\<forall>n \<in> set (layerKids ?v). n < length (cards ?v)) \<and>
      (\<forall>n \<in> set (removed ?v). n < length (cards ?v)) \<and>
      (\<forall>t \<in> set (timers ?v). snd t < length (cards ?v))"
    using inv by (auto simp: ui_inv_def dest: notin_set_remove1)
  show ?thesis using Some cards rest by (simp add: ui_inv_def)
qed

lemma removalListener_idem: "removalListener n (removalListener n ui) = removalListener n ui"
  by (simp add: removalListener_def)

lemma removalListener_pow:
  "((removalListener n) ^^ k) ui = (if k = 0 then ui else removalListener n ui)"
  by (induction k) (auto simp: removalListener_idem)

lemma animationend_eq:
  "animationend n ui =
     (if n \<ge> length (cards ui) then ui
      else if listeners (cards ui ! n) = 0 then ui\<lparr>cards := (cards ui)[n := (cards ui ! n)\<lparr>listeners := 0\<rparr>]\<rparr>
      else if attached (cards ui ! n)
      then ui\<lparr>cards := (cards ui)[n := (cards ui ! n)\<lparr>attached := False, listeners := 0\<rparr>],
              layerKids := removeAll n (layerKids ui),
              removed := removed ui @ [n]\<rparr>
      else ui\<lparr>cards := (cards ui)[n := (cards ui ! n)\<lparr>listeners := 0\<rparr>]\<rparr>)"
  by (auto simp: animationend_def Let_def removalListener_pow removalListener_def)

lemma card_inv_other:
  assumes "card_inv ui m" "cards ui' ! m = cards ui ! m" "timers ui' = timers ui"
    "count_list (removed ui') m = count_list (removed ui) m"
    "m \<in> set (layerKids ui') \<longleftrightarrow> m \<in> set (layerKids ui)"
  shows "card_inv ui' m"
  using assms by (simp add: card_inv_def Let_def)

lemma anim_card_inv:
  assumes "card_inv ui m" "m < length (cards ui)"
  shows "card_inv (animationend n ui) m"
proof (cases "m = n")
  case False
  show ?thesis
    by (rule card_inv_other [OF assms(1)]) (use False in \<open>auto simp: animationend_eq\<close>)
next
  case True
  show ?thesis
    using assms True
    by (auto simp: animationend_eq card_inv_def Let_def)
qed

lemma anim_inv: "ui_inv ui \<Longrightarrow> ui_inv (animationend n ui)"
proof -
  assume inv: "ui_inv ui"
  have len: "length (cards (animationend n ui)) = length (cards ui)"
    by (simp add: animationend_eq)
  have k: "set (layerKids (animationend n ui)) \<subseteq> set (layerKids ui)"
    by (auto simp: animationend_eq)
  have r: "set (removed (animationend n ui)) \<subseteq> set (removed ui) \<union> {k. k < length (cards ui)}"
    by (auto simp: animationend_eq)
  have t: "timers (animationend n ui) = timers ui"
    by (simp add: animationend_eq)
  show ?thesis
    unfolding ui_inv_def len t
    using inv k r by (auto simp: ui_inv_def anim_card_inv)
qed

lemma step_inv: "ui_inv ui \<Longrightarrow> ui_inv (ui_step e ui)"
proof (cases e)
  case (Show be opts) then show "ui_inv ui \<Longrightarrow> ?thesis" by (simp only: show_inv)
next
  case (ShowApp be opts) then show "ui_inv ui \<Longrightarrow> ?thesis" by (simp only: showApp_inv)
next
  case (ClickClose n) then show "ui_inv ui \<Longrightarrow> ?thesis" by (simp add: dismiss_inv)
next
  case (TimerFires n) then show "ui_inv ui \<Longrightarrow> ?thesis" by (simp only: timer_inv)
next
  case ClearAll then show "ui_inv ui \<Longrightarrow> ?thesis" by (simp add: clear_inv)
next
  case (AnimationEnd n) then show "ui_inv ui \<Longrightarrow> ?thesis" by (simp add: anim_inv)
qed

lemma run_inv: "ui_inv ui \<Longrightarrow> ui_inv (ui_run es ui)"
  unfolding ui_run_def by (induction es arbitrary: ui) (simp_all add: step_inv)

lemma dismiss_mono:
  "n < length (cards ui) \<Longrightarrow>
     set (classes (cards ui ! n)) \<subseteq> set (classes (cards (dismissAlert el ui) ! n)) \<and>
     attached (cards (dismissAlert el ui) ! n) = attached (cards ui ! n)"
  by (cases "el = Some n") (auto simp: dismiss_same dismiss_other)

lemma fold_dismiss_mono:
  "n < length (cards ui) \<Longrightarrow>
     n < length (cards (fold (\<lambda>a. dismissAlert (Some a)) xs ui)) \<and>
     set (classes (cards ui ! n)) \<subseteq> set (classes (cards (fold (\<lambda>a. dismissAlert (Some a)) xs ui) ! n)) \<and>
     attached (cards (fold (\<lambda>a. dismissAlert (Some a)) xs ui) ! n) = attached (cards ui ! n)"
proof (induction xs arbitrary: ui)
  case Nil
  then show ?case by simp
next
  case (Cons a xs)
  have l: "n < length (cards (dismissAlert (Some a) ui))" using Cons.prems by simp
  from Cons.IH [OF l] dismiss_mono [OF Cons.prems, of "Some a"]
  show ?case by auto
qed

lemma show_mono:
  assumes "n < length (cards ui)"
  shows "n < length (cards (ui_step (Show be opts) ui)) \<and>
     cards (ui_step (Show be opts) ui) ! n = cards ui ! n"
proof (cases "showAlert be opts ui")
  case (Inl e)
  then show ?thesis using assms by simp
next
  case (Inr ui')
  show ?thesis
  proof (cases "layer ui")
    case True
    from showAlert_shape [OF Inr True] obtain c where "cards ui' = cards ui @ [c]" by blast
    then show ?thesis using Inr assms by (simp add: nth_append)
  next
    case False
    then show ?thesis using assms by (simp add: showAlert_nolayer)
  qed
qed

lemma showApp_mono:
  assumes "n < length (cards ui)"
  shows "n < length (cards (ui_step (ShowApp be opts) ui)) \<and>
     cards (ui_step (ShowApp be opts) ui) ! n = cards ui ! n"
proof (cases "showAlert_app be opts ui")
  case (Inl e)
  then show ?thesis using assms by simp
next
  case (Inr ui')
  show ?thesis
  proof (cases "layer ui")
    case True
    from showAlert_app_shape [OF Inr True] obtain c where "cards ui' = cards ui @ [c]" by blast
    then show ?thesis using Inr assms by (simp add: nth_append)
  next
    case False
    then show ?thesis using assms by (simp add: showAlert_app_nolayer)
  qed
qed

lemma anim_mono:
  "n < length (cards ui) \<Longrightarrow>
     n < length (cards (animationend m ui)) \<and>
     classes (cards (animationend m ui) ! n) = classes (cards ui ! n) \<and>
     (\<not> attached (cards ui ! n) \<longrightarrow> \<not> attached (cards (animationend m ui) ! n))"
  by (auto simp: animationend_eq nth_list_update)

lemma step_mono:
  assumes "n < length (cards ui)"
  shows "n < length (cards (ui_step e ui)) \<and>
     set (classes (cards ui ! n)) \<subseteq> set (classes (cards (ui_step e ui) ! n)) \<and>
     (\<not> attached (cards ui ! n) \<longrightarrow> \<not> attached (cards (ui_step e ui) ! n))"
proof (cases e)
  case (Show be opts)
  then show ?thesis using show_mono [OF assms] by simp
next
  case (ShowApp be opts)
  then show ?thesis using showApp_mono [OF assms] by simp
next
  case (ClickClose m)
  then show ?thesis using dismiss_mono [OF assms, of "Some m"] assms by simp
next
  case (TimerFires m)
  show ?thesis
  proof (cases "find (\<lambda>t. snd t = m) (timers ui)")
    case None
    then show ?thesis using TimerFires assms by simp
  next
    case (Some t)
    have "n < length (cards (ui\<lparr>timers := remove1 t (timers ui)\<rparr>))" using assms by simp
    from dismiss_mono [OF this, of "Some m"] show ?thesis using TimerFires Some assms by simp
  qed
next
  case ClearAll
  then show ?thesis using fold_dismiss_mono [OF assms, of "layerKids ui"] assms
    by (simp add: clearAllAlerts_def)
next
  case (AnimationEnd m)
  then show ?thesis using anim_mono [OF assms, of m] assms by simp
qed

lemma run_mono:
  "n < length (cards ui) \<Longrightarrow>
     n < length (cards (ui_run es ui)) \<and>
     set (classes (cards ui ! n)) \<subseteq> set (classes (cards (ui_run es ui) ! n)) \<and>
     (\<not> attached (cards ui ! n) \<longrightarrow> \<not> attached (cards (ui_run es ui) ! n))"
proof (induction es arbitrary: ui)
  case Nil
  then show ?case by (simp add: ui_run_def)
next
  case (Cons e es)
  from step_mono [OF Cons.prems, of e] have s: "n < length (cards (ui_step e ui))"
    "set (classes (cards ui ! n)) \<subseteq> set (classes (cards (ui_step e ui) ! n))"
    "\<not> attached (cards ui ! n) \<longrightarrow> \<not> attached (cards (ui_step e ui) ! n)" by auto
  from Cons.IH [OF s(1)] s(2,3) show ?case by (auto simp: ui_run_def)
qed

lemma run_append: "ui_run (es @ fs) ui = ui_run fs (ui_run es ui)"
  by (simp add: ui_run_def)

lemma run_single: "ui_run [e] ui = ui_step e ui"
  by (simp add: ui_run_def)

lemma anim_detaches:
  assumes "ui_inv ui" "n < length (cards ui)" "''uf-alert--leaving'' \<in> set (classes (cards ui ! n))"
  shows "\<not> attached (cards (animationend n ui) ! n)"
proof -
  have "card_inv ui n" using assms by (simp add: ui_inv_def)
  then show ?thesis using assms(2,3)
    by (auto simp: animationend_eq card_inv_def Let_def)
qed

lemma removed_once:
  assumes inv: "ui_inv ui" and n: "n < length (cards ui)"
    and lv: "''uf-alert--leaving'' \<in> set (classes (cards ui ! n))"
  shows "count_list (removed (ui_run (es2 @ [AnimationEnd n] @ es3) ui)) n = 1 \<and>
         n \<notin> set (layerKids (ui_run (es2 @ [AnimationEnd n] @ es3) ui)) \<and>
         \<not> attached (cards (ui_run (es2 @ [AnimationEnd n] @ es3) ui) ! n)"
proof -
  let ?a = "ui_run es2 ui"
  let ?b = "animationend n ?a"
  let ?c = "ui_run es3 ?b"
  have ia: "ui_inv ?a" using inv by (rule run_inv)
  from run_mono [OF n, of es2] lv have na: "n < length (cards ?a)"
    and la: "''uf-alert--leaving'' \<in> set (classes (cards ?a ! n))" by auto
  have db: "\<not> attached (cards ?b ! n)" using ia na la by (rule anim_detaches)
  have nb: "n < length (cards ?b)" using na by (simp add: animationend_eq)
  have ib: "ui_inv ?b" using ia by (rule anim_inv)
  from run_mono [OF nb, of es3] db have nc: "n < length (cards ?c)"
    and dc: "\<not> attached (cards ?c ! n)" by auto
  have ic: "ui_inv ?c" using ib by (rule run_inv)
  then have "card_inv ?c n" using nc by (simp add: ui_inv_def)
  then have "count_list (removed ?c) n = 1 \<and> n \<notin> set (layerKids ?c)" using dc
    by (simp add: card_inv_def Let_def)
  moreover have "ui_run (es2 @ [AnimationEnd n] @ es3) ui = ?c"
    by (simp add: ui_run_def)
  ultimately show ?thesis using dc by simp
qed

lemma timer_leaving:
  assumes "ui_inv ui" "n < length (cards ui)"
  shows "''uf-alert--leaving'' \<in> set (classes (cards (ui_step (TimerFires n) ui) ! n))"
proof (cases "find (\<lambda>t. snd t = n) (timers ui)")
  case None
  then have "\<forall>d. (d, n) \<notin> set (timers ui)" by (auto simp: find_None_iff)
  moreover have "card_inv ui n" using assms by (simp add: ui_inv_def)
  ultimately show ?thesis using None by (auto simp: card_inv_def Let_def)
next
  case (Some t)
  then show ?thesis using assms(2) by (simp add: dismiss_same)
qed

lemma click_leaving:
  assumes "n < length (cards ui)"
  shows "''uf-alert--leaving'' \<in> set (classes (cards (dismissAlert (Some n) ui) ! n))"
  using assms by (simp add: dismiss_same)

lemma dismiss_idem: "dismissAlert el (dismissAlert el ui) = dismissAlert el ui"
  by (cases el) (auto simp: dismissAlert_def)

lemma dismiss_noop:
  "''uf-alert--leaving'' \<in> set (classes (cards ui ! n)) \<Longrightarrow> dismissAlert (Some n) ui = ui"
  by (simp add: dismissAlert_def)

lemma typeIsText_upper:
  "typeIsText opts \<Longrightarrow>
   \<exists>up. toUpperCase (dflt (otype (case opts of None \<Rightarrow> no_options | Some x \<Rightarrow> x)) (JStr ''info'')) = Inr up"
  by (auto simp: typeIsText_def no_options_def split: option.splits jsval.splits)

lemma showAlert_ok:
  assumes "layer ui" "typeIsText opts"
  shows "\<exists>ui'. showAlert be opts ui = Inr ui'"
proof -
  from typeIsText_upper [OF assms(2)] obtain up where
    "toUpperCase (dflt (otype (case opts of None \<Rightarrow> no_options | Some x \<Rightarrow> x)) (JStr ''info'')) = Inr up" ..
  then show ?thesis using assms(1)
    by (simp add: showAlert_def Let_def)
qed

lemma showAlert_app_ok:
  assumes "layer ui" "typeIsText opts"
  shows "\<exists>ui'. showAlert_app be opts ui = Inr ui'"
proof -
  from typeIsText_upper [OF assms(2)] obtain up where
    "toUpperCase (dflt (otype (case opts of None \<Rightarrow> no_options | Some x \<Rightarrow> x)) (JStr ''info'')) = Inr up" ..
  then show ?thesis using assms(1)
    by (simp add: showAlert_app_def Let_def)
qed

lemma step_layer: "layer (ui_step e ui) = layer ui"
proof (cases e)
  case (Show be opts)
  show ?thesis
  proof (cases "showAlert be opts ui")
    case (Inl a) then show ?thesis using Show by simp
  next
    case (Inr ui')
    then show ?thesis using Show showAlert_shape [OF Inr] showAlert_nolayer [of ui be opts]
      by (cases "layer ui") auto
  qed
next
  case (ShowApp be opts)
  show ?thesis
  proof (cases "showAlert_app be opts ui")
    case (Inl a) then show ?thesis using ShowApp by simp
  next
    case (Inr ui')
    then show ?thesis using ShowApp showAlert_app_shape [OF Inr] showAlert_app_nolayer [of ui be opts]
      by (cases "layer ui") auto
  qed
next
  case (ClickClose n) then show ?thesis by simp
next
  case (TimerFires n) then show ?thesis by (simp split: option.splits)
next
  case ClearAll
  have "layer (fold (\<lambda>a. dismissAlert (Some a)) xs u) = layer u" for xs u
    by (induction xs arbitrary: u) simp_all
  then show ?thesis using ClearAll by (simp add: clearAllAlerts_def)
next
  case (AnimationEnd n) then show ?thesis by (simp add: animationend_eq)
qed

lemma run_layer: "layer (ui_run es ui) = layer ui"
  unfolding ui_run_def by (induction es arbitrary: ui) (simp_all add: step_layer)

lemma reach_inv: "ui_inv (ui_run es (empty_ui l))"
  by (rule run_inv [OF inv_empty])

text \<open>
  Claim C3. On every page reachable from the empty page by any sequence of events:
  \<^verbatim>\<open>dismissAlert\<close> is idempotent; its first call on a card marks the card
  \<^verbatim>\<open>uf-alert--leaving\<close> and leaves exactly one once-only \<^verbatim>\<open>animationend\<close> listener
  on it; on a card already leaving every later call, from the close button or from the
  timer, changes nothing; no card ever has more than one listener; no card is removed more than
  once; a removed card is not in the layer, now or after any further events; and after a
  dismissal followed by the end of the animation the card has been removed exactly once,
  whatever other events happen in between or afterwards.
\<close>

theorem dismissAlert_idempotent_removed_once:
  "let ui = ui_run es (empty_ui l) in
     (\<forall>el. dismissAlert el (dismissAlert el ui) = dismissAlert el ui) \<and>
     (\<forall>n < length (cards ui). ''uf-alert--leaving'' \<notin> set (classes (cards ui ! n)) \<longrightarrow>
        ''uf-alert--leaving'' \<in> set (classes (cards (dismissAlert (Some n) ui) ! n)) \<and>
        listeners (cards (dismissAlert (Some n) ui) ! n) = 1) \<and>
     (\<forall>n < length (cards ui). ''uf-alert--leaving'' \<in> set (classes (cards ui ! n)) \<longrightarrow>
        dismissAlert (Some n) ui = ui) \<and>
     (\<forall>n < length (cards ui). listeners (cards ui ! n) \<le> 1) \<and>
     (\<forall>n. count_list (removed ui) n \<le> 1) \<and>
     (\<forall>n \<in> set (removed ui). n \<notin> set (layerKids ui) \<and> \<not> attached (cards ui ! n)) \<and>
     (\<forall>n < length (cards ui). \<forall>es2 es3.
        count_list (removed (ui_run ([ClickClose n] @ es2 @ [AnimationEnd n] @ es3) ui)) n = 1 \<and>
        n \<notin> set (layerKids (ui_run ([ClickClose n] @ es2 @ [AnimationEnd n] @ es3) ui)))"
proof -
  define ui where "ui = ui_run es (empty_ui l)"
  have inv: "ui_inv ui" unfolding ui_def by (rule reach_inv)
  have ci: "card_inv ui n" if "n < length (cards ui)" for n
    using inv that by (simp add: ui_inv_def)
  have a: "\<forall>el. dismissAlert el (dismissAlert el ui) = dismissAlert el ui"
    by (simp add: dismiss_idem)
  have b: "\<forall>n < length (cards ui). ''uf-alert--leaving'' \<notin> set (classes (cards ui ! n)) \<longrightarrow>
        ''uf-alert--leaving'' \<in> set (classes (cards (dismissAlert (Some n) ui) ! n)) \<and>
        listeners (cards (dismissAlert (Some n) ui) ! n) = 1"
    using ci by (auto simp: dismiss_same card_inv_def Let_def)
  have c: "\<forall>n < length (cards ui). ''uf-alert--leaving'' \<in> set (classes (cards ui ! n)) \<longrightarrow>
        dismissAlert (Some n) ui = ui"
    by (simp add: dismiss_noop)
  have d: "\<forall>n < length (cards ui). listeners (cards ui ! n) \<le> 1"
  proof (intro allI impI)
    fix n assume "n < length (cards ui)"
    from ci [OF this] show "listeners (cards ui ! n) \<le> 1"
      by (cases "attached (cards ui ! n)"; cases "''uf-alert--leaving'' \<in> set (classes (cards ui ! n))")
        (auto simp: card_inv_def Let_def)
  qed
  have e: "\<forall>n. count_list (removed ui) n \<le> 1"
  proof
    fix n
    show "count_list (removed ui) n \<le> 1"
    proof (cases "n < length (cards ui)")
      case True
      from ci [OF True] show ?thesis by (simp add: card_inv_def Let_def split: if_splits)
    next
      case False
      then have "n \<notin> set (removed ui)" using inv by (auto simp: ui_inv_def)
      then show ?thesis by (simp add: count_list_0_iff)
    qed
  qed
  have f: "\<forall>n \<in> set (removed ui). n \<notin> set (layerKids ui) \<and> \<not> attached (cards ui ! n)"
  proof
    fix n assume m: "n \<in> set (removed ui)"
    then have "n < length (cards ui)" using inv by (auto simp: ui_inv_def)
    from ci [OF this] m show "n \<notin> set (layerKids ui) \<and> \<not> attached (cards ui ! n)"
      by (auto simp: card_inv_def Let_def count_list_0_iff split: if_splits)
  qed
  have g: "\<forall>n < length (cards ui). \<forall>es2 es3.
        count_list (removed (ui_run ([ClickClose n] @ es2 @ [AnimationEnd n] @ es3) ui)) n = 1 \<and>
        n \<notin> set (layerKids (ui_run ([ClickClose n] @ es2 @ [AnimationEnd n] @ es3) ui))"
  proof (intro allI impI)
    fix n es2 es3 assume n: "n < length (cards ui)"
    let ?u = "dismissAlert (Some n) ui"
    have 1: "ui_inv ?u" using inv by (rule dismiss_inv)
    have 2: "n < length (cards ?u)" using n by simp
    have 3: "''uf-alert--leaving'' \<in> set (classes (cards ?u ! n))" using n by (rule click_leaving)
    have "ui_run ([ClickClose n] @ es2 @ [AnimationEnd n] @ es3) ui = ui_run (es2 @ [AnimationEnd n] @ es3) ?u"
      by (simp add: ui_run_def)
    with removed_once [OF 1 2 3, of es2 es3]
    show "count_list (removed (ui_run ([ClickClose n] @ es2 @ [AnimationEnd n] @ es3) ui)) n = 1 \<and>
        n \<notin> set (layerKids (ui_run ([ClickClose n] @ es2 @ [AnimationEnd n] @ es3) ui))"
      by simp
  qed
  from a b c d e f g show ?thesis unfolding ui_def Let_def by blast
qed

lemmas ui_eval = ui_run_def empty_ui_def showAlert_def showAlert_app_def Let_def playBeep_def
  playBeep_app_def severityClasses_def chipClassesOf_def sourceLine_def textOf_def no_options_def
  dismissAlert_def animationend_def removalListener_def clearAllAlerts_def upper_char_def

theorem dismissAlert_idempotent_removed_once_witness:
  "length (cards (ui_run [Show AudioContextOk None] (empty_ui True))) = 1 \<and>
   ''uf-alert--leaving'' \<notin> set (classes (cards (ui_run [Show AudioContextOk None] (empty_ui True)) ! 0)) \<and>
   listeners (cards (dismissAlert (Some 0) (ui_run [Show AudioContextOk None] (empty_ui True))) ! 0) = 1 \<and>
   removed (ui_run [Show AudioContextOk None, ClickClose 0, TimerFires 0, AnimationEnd 0, ClickClose 0, AnimationEnd 0]
      (empty_ui True)) = [0] \<and>
   count_list (removed (ui_run ([ClickClose 0] @ [TimerFires 0] @ [AnimationEnd 0] @ [ClickClose 0, AnimationEnd 0])
      (ui_run [Show AudioContextOk None] (empty_ui True)))) 0 = 1"
proof -
  have len: "length (cards (ui_run [Show AudioContextOk None] (empty_ui True))) = 1"
    by (simp add: ui_eval)
  have nl: "''uf-alert--leaving'' \<notin> set (classes (cards (ui_run [Show AudioContextOk None] (empty_ui True)) ! 0))"
    by (simp add: ui_eval)
  have r: "removed (ui_run [Show AudioContextOk None, ClickClose 0, TimerFires 0, AnimationEnd 0, ClickClose 0, AnimationEnd 0]
      (empty_ui True)) = [0]"
    by (simp add: ui_eval)
  from dismissAlert_idempotent_removed_once [of "[Show AudioContextOk None]" True] len nl r
  show ?thesis
    unfolding Let_def by (metis One_nat_def less_one zero_less_one)
qed

text \<open>
  Claim C4 as stated fails: with a \<^verbatim>\<open>type\<close> that is present and not a string, here
  the number 5 (which \<^verbatim>\<open>handleDetectionEvent\<close> of \<^verbatim>\<open>static/app.js\<close> passes on
  from a JSON event), \<^verbatim>\<open>type.toUpperCase()\<close> raises a TypeError into the caller.
\<close>

theorem showAlert_nonstring_type_counterexample:
  "showAlert AudioContextOk (Some (no_options\<lparr>otype := JNum 5\<rparr>)) (empty_ui True) = Inl TypeError \<and>
   showAlert_app AudioContextOk (Some (no_options\<lparr>otype := JNum 5\<rparr>)) (empty_ui True) = Inl TypeError"
  by (simp add: showAlert_def showAlert_app_def no_options_def empty_ui_def Let_def)

lemma showAlert_inserted:
  assumes "layer ui" "typeIsText opts"
  shows "inserted_one 4200 ui (showAlert be opts ui)"
proof -
  from showAlert_ok [OF assms] obtain ui' where r: "showAlert be opts ui = Inr ui'" by blast
  from showAlert_shape [OF r assms(1)] show ?thesis
    unfolding inserted_one_def r by auto
qed

lemma showAlert_app_inserted:
  assumes "layer ui" "typeIsText opts"
  shows "inserted_one 4300 ui (showAlert_app be opts ui)"
proof -
  from showAlert_app_ok [OF assms] obtain ui' where r: "showAlert_app be opts ui = Inr ui'" by blast
  from showAlert_app_shape [OF r assms(1)] show ?thesis
    unfolding inserted_one_def r by auto
qed

lemma shown_then_removed:
  assumes inv: "ui_inv ui" and n: "n = length (cards ui)" and ly: "layer ui"
    and sh: "inserted_one d ui (Inr (ui_step e ui))"
  shows "count_list (removed (ui_run ([e] @ es1 @ [TimerFires n] @ es2 @ [AnimationEnd n] @ es3) ui)) n = 1 \<and>
         n \<notin> set (layerKids (ui_run ([e] @ es1 @ [TimerFires n] @ es2 @ [AnimationEnd n] @ es3) ui))"
proof -
  let ?a = "ui_step e ui"
  let ?b = "ui_run es1 ?a"
  let ?c = "ui_step (TimerFires n) ?b"
  have ia: "ui_inv ?a" using inv by (rule step_inv)
  have na: "n < length (cards ?a)" using sh n by (simp add: inserted_one_def)
  have ib: "ui_inv ?b" using ia by (rule run_inv)
  have nb: "n < length (cards ?b)" using run_mono [OF na, of es1] by simp
  have ic: "ui_inv ?c" using ib by (rule step_inv)
  have nc: "n < length (cards ?c)" using step_mono [OF nb, of "TimerFires n"] by simp
  have lc: "''uf-alert--leaving'' \<in> set (classes (cards ?c ! n))" using ib nb by (rule timer_leaving)
  have "ui_run ([e] @ es1 @ [TimerFires n] @ es2 @ [AnimationEnd n] @ es3) ui
      = ui_run (es2 @ [AnimationEnd n] @ es3) ?c"
    by (simp add: ui_run_def)
  with removed_once [OF ic nc lc, of es2 es3] show ?thesis by simp
qed

text \<open>
  Claim C4, amended. Without an alert layer \<^verbatim>\<open>showAlert\<close> returns and inserts nothing,
  whatever the options. With a layer and a \<^verbatim>\<open>type\<close> that is missing or a string, for
  every severity value, every other field and every outcome of the audio attempt, it returns
  normally having inserted exactly one card with its auto-dismiss timer pending (4200 ms on
  the detection pages, 4300 ms in \<^verbatim>\<open>static/app.js\<close>). On any reachable page with a layer,
  once that timer has fired and the animation of the card has ended, the card has been removed
  from the layer exactly once, whatever other events happen before, in between or afterwards.
  With a layer and a \<^verbatim>\<open>type\<close> that is present and not a string, the call raises a
  TypeError into its caller.
\<close>

theorem showAlert_text_type_total:
  "(\<not> layer ui \<longrightarrow> showAlert be opts ui = Inr ui \<and> showAlert_app be opts ui = Inr ui) \<and>
   (layer ui \<and> typeIsText opts \<longrightarrow>
      inserted_one 4200 ui (showAlert be opts ui) \<and> inserted_one 4300 ui (showAlert_app be opts ui)) \<and>
   (typeIsText opts \<longrightarrow>
      (let ui0 = ui_run es (empty_ui True); n = length (cards ui0) in
       \<forall>es1 es2 es3.
         count_list (removed (ui_run ([Show be opts] @ es1 @ [TimerFires n] @ es2 @ [AnimationEnd n] @ es3) ui0)) n = 1 \<and>
         n \<notin> set (layerKids (ui_run ([Show be opts] @ es1 @ [TimerFires n] @ es2 @ [AnimationEnd n] @ es3) ui0)) \<and>
         count_list (removed (ui_run ([ShowApp be opts] @ es1 @ [TimerFires n] @ es2 @ [AnimationEnd n] @ es3) ui0)) n = 1 \<and>
         n \<notin> set (layerKids (ui_run ([ShowApp be opts] @ es1 @ [TimerFires n] @ es2 @ [AnimationEnd n] @ es3) ui0)))) \<and>
   (layer ui \<and> \<not> typeIsText opts \<longrightarrow>
      showAlert be opts ui = Inl TypeError \<and> showAlert_app be opts ui = Inl TypeError)"
proof -
  have a: "\<not> layer ui \<longrightarrow> showAlert be opts ui = Inr ui \<and> showAlert_app be opts ui = Inr ui"
    by (simp add: showAlert_nolayer showAlert_app_nolayer)
  have d: "layer ui \<and> \<not> typeIsText opts \<longrightarrow>
      showAlert be opts ui = Inl TypeError \<and> showAlert_app be opts ui = Inl TypeError"
    by (auto simp: typeIsText_def showAlert_def showAlert_app_def Let_def
        split: option.splits jsval.splits)
  have b: "layer ui \<and> typeIsText opts \<longrightarrow>
      inserted_one 4200 ui (showAlert be opts ui) \<and> inserted_one 4300 ui (showAlert_app be opts ui)"
    by (simp add: showAlert_inserted showAlert_app_inserted)
  have c: "typeIsText opts \<longrightarrow>
      (let ui0 = ui_run es (empty_ui True); n = length (cards ui0) in
       \<forall>es1 es2 es3.
         count_list (removed (ui_run ([Show be opts] @ es1 @ [TimerFires n] @ es2 @ [AnimationEnd n] @ es3) ui0)) n = 1 \<and>
         n \<notin> set (layerKids (ui_run ([Show be opts] @ es1 @ [TimerFires n] @ es2 @ [AnimationEnd n] @ es3) ui0)) \<and>
         count_list (removed (ui_run ([ShowApp be opts] @ es1 @ [TimerFires n] @ es2 @ [AnimationEnd n] @ es3) ui0)) n = 1 \<and>
         n \<notin> set (layerKids (ui_run ([ShowApp be opts] @ es1 @ [TimerFires n] @ es2 @ [AnimationEnd n] @ es3) ui0)))"
  proof
    assume t: "typeIsText opts"
    define ui0 where "ui0 = ui_run es (empty_ui True)"
    have inv: "ui_inv ui0" unfolding ui0_def by (rule reach_inv)
    have ly: "layer ui0" unfolding ui0_def by (simp add: run_layer empty_ui_def)
    have s1: "inserted_one 4200 ui0 (Inr (ui_step (Show be opts) ui0))"
      using showAlert_inserted [OF ly t, of be] by (auto simp: inserted_one_def split: sum.splits)
    have s2: "inserted_one 4300 ui0 (Inr (ui_step (ShowApp be opts) ui0))"
      using showAlert_app_inserted [OF ly t, of be] by (auto simp: inserted_one_def split: sum.splits)
    show "let ui0 = ui_run es (empty_ui True); n = length (cards ui0) in
       \<forall>es1 es2 es3.
         count_list (removed (ui_run ([Show be opts] @ es1 @ [TimerFires n] @ es2 @ [AnimationEnd n] @ es3) ui0)) n = 1 \<and>
         n \<notin> set (layerKids (ui_run ([Show be opts] @ es1 @ [TimerFires n] @ es2 @ [AnimationEnd n] @ es3) ui0)) \<and>
         count_list (removed (ui_run ([ShowApp be opts] @ es1 @ [TimerFires n] @ es2 @ [AnimationEnd n] @ es3) ui0)) n = 1 \<and>
         n \<notin> set (layerKids (ui_run ([ShowApp be opts] @ es1 @ [TimerFires n] @ es2 @ [AnimationEnd n] @ es3) ui0))"
      unfolding Let_def ui0_def [symmetric]
      using shown_then_removed [OF inv refl ly s1] shown_then_removed [OF inv refl ly s2]
      by blast
  qed
  from a b c d show ?thesis by blast
qed

theorem showAlert_text_type_total_witness:
  "\<not> layer (empty_ui False) \<and>
   showAlert AudioContextThrows (Some (no_options\<lparr>severity := JStr ''bogus''\<rparr>)) (empty_ui False) = Inr (empty_ui False) \<and>
   layer (empty_ui True) \<and> typeIsText (Some (no_options\<lparr>severity := JStr ''bogus''\<rparr>)) \<and>
   inserted_one 4200 (empty_ui True)
     (showAlert AudioContextThrows (Some (no_options\<lparr>severity := JStr ''bogus''\<rparr>)) (empty_ui True)) \<and>
   inserted_one 4300 (empty_ui True)
     (showAlert_app AudioContextThrows (Some (no_options\<lparr>severity := JStr ''bogus''\<rparr>)) (empty_ui True)) \<and>
   removed (ui_run ([Show AudioContextThrows (Some (no_options\<lparr>severity := JStr ''bogus''\<rparr>))] @ [] @
       [TimerFires 0] @ [] @ [AnimationEnd 0] @ []) (ui_run [] (empty_ui True))) = [0]"
proof -
  have h1: "\<not> layer (empty_ui False)" by (simp add: empty_ui_def)
  have h2: "layer (empty_ui True)" by (simp add: empty_ui_def)
  have h3: "typeIsText (Some (no_options\<lparr>severity := JStr ''bogus''\<rparr>))"
    by (simp add: typeIsText_def no_options_def)
  have r: "removed (ui_run ([Show AudioContextThrows (Some (no_options\<lparr>severity := JStr ''bogus''\<rparr>))] @ [] @
       [TimerFires 0] @ [] @ [AnimationEnd 0] @ []) (ui_run [] (empty_ui True))) = [0]"
    by (simp add: ui_eval)
  from showAlert_text_type_total [of "empty_ui False" AudioContextThrows "Some (no_options\<lparr>severity := JStr ''bogus''\<rparr>)"] h1
  have a: "showAlert AudioContextThrows (Some (no_options\<lparr>severity := JStr ''bogus''\<rparr>)) (empty_ui False) = Inr (empty_ui False)"
    by blast
  from showAlert_text_type_total [of "empty_ui True" AudioContextThrows "Some (no_options\<lparr>severity := JStr ''bogus''\<rparr>)"] h2 h3
  have b: "inserted_one 4200 (empty_ui True)
     (showAlert AudioContextThrows (Some (no_options\<lparr>severity := JStr ''bogus''\<rparr>)) (empty_ui True)) \<and>
   inserted_one 4300 (empty_ui True)
     (showAlert_app AudioContextThrows (Some (no_options\<lparr>severity := JStr ''bogus''\<rparr>)) (empty_ui True))"
    by blast
  from h1 h2 h3 a b r show ?thesis by blast
qed

lemma showAlert_new_card:
  assumes "layer ui" "showAlert be opts ui = Inr ui'"
  shows "classes (cards ui' ! length (cards ui)) =
           ''uf-alert'' # severityClasses (dflt (severity (case opts of None \<Rightarrow> no_options | Some x \<Rightarrow> x)) (JStr ''warning'')) \<and>
         beeps ui' = beeps (playBeep be (dflt (severity (case opts of None \<Rightarrow> no_options | Some x \<Rightarrow> x)) (JStr ''warning'')) ui)"
  using assms
  by (cases be) (auto simp: showAlert_def Let_def playBeep_def split: sum.splits)

lemma showAlert_app_new_card:
  assumes "layer ui" "showAlert_app be opts ui = Inr ui'"
  shows "classes (cards ui' ! length (cards ui)) =
           ''uf-alert'' # severityClasses (dflt (severity (case opts of None \<Rightarrow> no_options | Some x \<Rightarrow> x)) (JStr ''warning'')) \<and>
         beeps ui' = beeps (playBeep_app be (dflt (severity (case opts of None \<Rightarrow> no_options | Some x \<Rightarrow> x)) (JStr ''warning'')) ui)"
  using assms
  by (cases be) (auto simp: showAlert_app_def Let_def playBeep_app_def split: sum.splits)

lemma severityClasses_iff:
  "(''uf-alert--critical'' \<in> set (''uf-alert'' # severityClasses sev) \<longleftrightarrow> sev = JStr ''critical'') \<and>
   (''uf-alert--warning'' \<in> set (''uf-alert'' # severityClasses sev) \<longleftrightarrow> sev = JStr ''warning'') \<and>
   (sev \<noteq> JStr ''critical'' \<and> sev \<noteq> JStr ''warning'' \<longrightarrow> ''uf-alert'' # severityClasses sev = [''uf-alert''])"
  by (simp add: severityClasses_def)

lemma playBeep_tone:
  "(be = AudioContextOk \<longrightarrow> beeps (playBeep be sev ui) = beeps ui @ [if sev = JStr ''critical'' then 1150 else 880]) \<and>
   (be \<noteq> AudioContextOk \<longrightarrow> beeps (playBeep be sev ui) = beeps ui)"
  by (cases be) (simp_all add: playBeep_def)

lemma playBeep_app_tone:
  "(be = AudioContextOk \<longrightarrow> beeps (playBeep_app be sev ui) = beeps ui @ [if sev = JStr ''critical'' then 1120 else 880]) \<and>
   (be \<noteq> AudioContextOk \<longrightarrow> beeps (playBeep_app be sev ui) = beeps ui)"
  by (cases be) (simp_all add: playBeep_app_def)

text \<open>
  Claim C10. For the severity that \<^verbatim>\<open>showAlert\<close> works with (the field of the options,
  \<^verbatim>\<open>"warning"\<close> when it is missing), in both scripts: the new card has the critical class
  exactly when the severity is \<^verbatim>\<open>"critical"\<close>, the warning class exactly when it is
  \<^verbatim>\<open>"warning"\<close>, and only the base class for every other value; the tone started is in
  1120..1150 Hz exactly when the severity is \<^verbatim>\<open>"critical"\<close> and 880 Hz otherwise.
\<close>

theorem severity_styling_and_tone:
  assumes "layer ui"
    and "sev = dflt (severity (case opts of None \<Rightarrow> no_options | Some x \<Rightarrow> x)) (JStr ''warning'')"
  shows "(showAlert be opts ui = Inr ui' \<longrightarrow>
            styled_by sev (cards ui' ! length (cards ui)) \<and> tone_by sev be (beeps ui) (beeps ui')) \<and>
         (showAlert_app be opts ui = Inr ua \<longrightarrow>
            styled_by sev (cards ua ! length (cards ui)) \<and> tone_by sev be (beeps ui) (beeps ua))"
proof (intro conjI impI)
  assume r: "showAlert be opts ui = Inr ui'"
  from showAlert_new_card [OF assms(1) r] severityClasses_iff [of sev]
  show "styled_by sev (cards ui' ! length (cards ui))"
    unfolding styled_by_def assms(2) by simp
  from showAlert_new_card [OF assms(1) r] playBeep_tone [of be sev ui]
  show "tone_by sev be (beeps ui) (beeps ui')"
    unfolding tone_by_def assms(2) by (cases be) auto
next
  assume r: "showAlert_app be opts ui = Inr ua"
  from showAlert_app_new_card [OF assms(1) r] severityClasses_iff [of sev]
  show "styled_by sev (cards ua ! length (cards ui))"
    unfolding styled_by_def assms(2) by simp
  from showAlert_app_new_card [OF assms(1) r] playBeep_app_tone [of be sev ui]
  show "tone_by sev be (beeps ui) (beeps ua)"
    unfolding tone_by_def assms(2) by (cases be) auto
qed

theorem severity_styling_and_tone_witness:
  "layer (empty_ui True) \<and>
   showAlert AudioContextOk (Some (no_options\<lparr>severity := JStr ''critical''\<rparr>)) (empty_ui True) =
     Inr (projr (showAlert AudioContextOk (Some (no_options\<lparr>severity := JStr ''critical''\<rparr>)) (empty_ui True))) \<and>
   showAlert_app AudioContextOk (Some (no_options\<lparr>severity := JStr ''critical''\<rparr>)) (empty_ui True) =
     Inr (projr (showAlert_app AudioContextOk (Some (no_options\<lparr>severity := JStr ''critical''\<rparr>)) (empty_ui True))) \<and>
   styled_by (JStr ''critical'')
     (cards (projr (showAlert AudioContextOk (Some (no_options\<lparr>severity := JStr ''critical''\<rparr>)) (empty_ui True))) ! 0) \<and>
   tone_by (JStr ''critical'') AudioContextOk []
     (beeps (projr (showAlert AudioContextOk (Some (no_options\<lparr>severity := JStr ''critical''\<rparr>)) (empty_ui True)))) \<and>
   beeps (projr (showAlert AudioContextOk (Some (no_options\<lparr>severity := JStr ''critical''\<rparr>)) (empty_ui True))) = [1150] \<and>
   styled_by (JStr ''critical'')
     (cards (projr (showAlert_app AudioContextOk (Some (no_options\<lparr>severity := JStr ''critical''\<rparr>)) (empty_ui True))) ! 0) \<and>
   tone_by (JStr ''critical'') AudioContextOk []
     (beeps (projr (showAlert_app AudioContextOk (Some (no_options\<lparr>severity := JStr ''critical''\<rparr>)) (empty_ui True)))) \<and>
   beeps (projr (showAlert_app AudioContextOk (Some (no_options\<lparr>severity := JStr ''critical''\<rparr>)) (empty_ui True))) = [1120]"
proof -
  let ?o = "Some (no_options\<lparr>severity := JStr ''critical''\<rparr>)"
  have l: "layer (empty_ui True)" by (simp add: empty_ui_def)
  have s: "JStr ''critical'' = dflt (severity (case ?o of None \<Rightarrow> no_options | Some x \<Rightarrow> x)) (JStr ''warning'')"
    by (simp add: no_options_def)
  have r1: "showAlert AudioContextOk ?o (empty_ui True) = Inr (projr (showAlert AudioContextOk ?o (empty_ui True)))"
    by (simp add: ui_eval)
  have r2: "showAlert_app AudioContextOk ?o (empty_ui True) = Inr (projr (showAlert_app AudioContextOk ?o (empty_ui True)))"
    by (simp add: ui_eval)
  have b1: "beeps (projr (showAlert AudioContextOk ?o (empty_ui True))) = [1150]"
    by (simp add: ui_eval)
  have b2: "beeps (projr (showAlert_app AudioContextOk ?o (empty_ui True))) = [1120]"
    by (simp add: ui_eval)
  have e: "cards (empty_ui True) = []" "beeps (empty_ui True) = []" by (simp_all add: empty_ui_def)
  from severity_styling_and_tone [OF l s, of AudioContextOk
      "projr (showAlert AudioContextOk ?o (empty_ui True))"
      "projr (showAlert_app AudioContextOk ?o (empty_ui True))"] r1 r2
  have "styled_by (JStr ''critical'') (cards (projr (showAlert AudioContextOk ?o (empty_ui True))) ! 0) \<and>
        tone_by (JStr ''critical'') AudioContextOk [] (beeps (projr (showAlert AudioContextOk ?o (empty_ui True)))) \<and>
        styled_by (JStr ''critical'') (cards (projr (showAlert_app AudioContextOk ?o (empty_ui True))) ! 0) \<and>
        tone_by (JStr ''critical'') AudioContextOk [] (beeps (projr (showAlert_app AudioContextOk ?o (empty_ui True))))"
    unfolding e by simp
  with l r1 r2 b1 b2 show ?thesis by simp
qed


section \<open>Detection pollers: proofs\<close>

lemma showAlert_alertOptions:
  "\<exists>ui'. showAlert be (Some (alertOptions ty ti msg)) u = Inr ui'"
  by (simp add: showAlert_def alertOptions_def Let_def)

lemma pes_simps [simp]:
  "lastEmailAlertTime (playEmergencySound ae now p) = lastEmailAlertTime p"
  "emailPosts (playEmergencySound ae now p) = emailPosts p"
  "pending (playEmergencySound ae now p) = pending p"
  "cameraIndex (playEmergencySound ae now p) = cameraIndex p"
  "alertLayer (playEmergencySound ae now p) = alertLayer p"
  "status (playEmergencySound ae now p) = status p"
  "lastResult (playEmergencySound ae now p) = lastResult p"
  by (simp_all add: playEmergencySound_def Let_def)

lemma sea_simps [simp]:
  "lastEmergencySoundTime (sendEmailAlert d dt now p) = lastEmergencySoundTime p"
  "emergencyAudio (sendEmailAlert d dt now p) = emergencyAudio p"
  "soundPlays (sendEmailAlert d dt now p) = soundPlays p"
  "lastEmailAlertTime (sendEmailAlert d dt now p) = lastEmailAlertTime p"
  "cameraIndex (sendEmailAlert d dt now p) = cameraIndex p"
  "alertLayer (sendEmailAlert d dt now p) = alertLayer p"
  "status (sendEmailAlert d dt now p) = status p"
  "lastResult (sendEmailAlert d dt now p) = lastResult p"
  by (simp_all add: sendEmailAlert_def Let_def)

lemma raiseAlarm_view:
  "\<exists>p1. raiseAlarm d ev (alertOptions ty ti msg) dt p = Some p1 \<and>
     gateView p1 = gateView (sendEmailAlert d dt (nowEmail ev) (playEmergencySound (audio ev) (nowSound ev) p))
     \<and> status p1 = status p \<and> lastResult p1 = lastResult p"
proof -
  obtain ui' where u: "showAlert (beep ev) (Some (alertOptions ty ti msg)) (alertLayer p) = Inr ui'"
    using showAlert_alertOptions by blast
  show ?thesis
    unfolding raiseAlarm_def u
    by (simp add: gateView_def sendEmailAlert_def playEmergencySound_def Let_def)
qed

lemma gateView_upd [simp]:
  "gateView (p\<lparr>status := s\<rparr>) = gateView p"
  "gateView (p\<lparr>lastResult := l\<rparr>) = gateView p"
  "gateView (p\<lparr>alertLayer := u\<rparr>) = gateView p"
  by (simp_all add: gateView_def)

lemma performCheck_smoking_view:
  "gateView (performCheck_smoking ev r p) =
     (if detects Smoking r
      then gateView (sendEmailAlert Smoking (detailOf Smoking r) (nowEmail ev)
                      (playEmergencySound (audio ev) (nowSound ev) p))
      else gateView p)"
proof (cases r)
  case (Failed e)
  then show ?thesis by (simp add: performCheck_smoking_def)
next
  case (Got res)
  obtain p1 where 1: "raiseAlarm Smoking ev (alertOptions ''smoking'' (emoji_fire @ '' CRITICAL: Smoke AND Fire Detected!'')
       ''Smoke and fire detected in monitoring zone. Evacuate immediately and contact emergency services!'') (JStr ''both'') p = Some p1"
     "gateView p1 = gateView (sendEmailAlert Smoking (JStr ''both'') (nowEmail ev) (playEmergencySound (audio ev) (nowSound ev) p))"
    using raiseAlarm_view by blast
  obtain p2 where 2: "raiseAlarm Smoking ev (alertOptions ''smoking'' (emoji_fire @ '' Fire Detected!'')
       ''Fire detected in monitoring zone. Take immediate action!'') (JStr ''fire'') p = Some p2"
     "gateView p2 = gateView (sendEmailAlert Smoking (JStr ''fire'') (nowEmail ev) (playEmergencySound (audio ev) (nowSound ev) p))"
    using raiseAlarm_view by blast
  obtain p3 where 3: "raiseAlarm Smoking ev (alertOptions ''smoking'' (emoji_siren @ '' Smoke Detected!'')
       ''Smoke detected in non-smoking zone. HSE and security are notified.'') (JStr ''smoke'') p = Some p3"
     "gateView p3 = gateView (sendEmailAlert Smoking (JStr ''smoke'') (nowEmail ev) (playEmergencySound (audio ev) (nowSound ev) p))"
    using raiseAlarm_view by blast
  show ?thesis
    unfolding Got performCheck_smoking_def Let_def
    by (simp add: 1 2 3)
qed

lemma performCheck_unauthorized_view:
  "gateView (performCheck_unauthorized ev r p) =
     (if detects Unauthorized r
      then gateView (sendEmailAlert Unauthorized (detailOf Unauthorized r) (nowEmail ev)
                      (playEmergencySound (audio ev) (nowSound ev) p))
      else gateView p)"
proof (cases r)
  case (Failed e)
  then show ?thesis by (simp add: performCheck_unauthorized_def)
next
  case (Got res)
  obtain p1 where 1: "raiseAlarm Unauthorized ev (alertOptions ''unauthorized'' ''Unauthorized / unknown person detected''
       ''Face is not in the authorized list. Please verify and respond according to procedure.'') (JStr ''Unknown person'') p = Some p1"
     "gateView p1 = gateView (sendEmailAlert Unauthorized (JStr ''Unknown person'') (nowEmail ev) (playEmergencySound (audio ev) (nowSound ev) p))"
    using raiseAlarm_view by blast
  show ?thesis
    unfolding Got performCheck_unauthorized_def Let_def
    by (simp add: 1)
qed

lemma performCheck_restricted_view:
  "gateView (performCheck_restricted ev r p) =
     (if detects Restricted r
      then gateView (sendEmailAlert Restricted (detailOf Restricted r) (nowEmail ev)
                      (playEmergencySound (audio ev) (nowSound ev) p))
      else gateView p)"
proof (cases r)
  case (Failed e)
  then show ?thesis by (simp add: performCheck_restricted_def)
next
  case (Got res)
  obtain p1 where 1: "raiseAlarm Restricted ev (alertOptions ''restricted'' ''Restricted area breach detected''
       ''A person has been detected inside the restricted safety zone. Initiate response plan.'') JUndefined p = Some p1"
     "gateView p1 = gateView (sendEmailAlert Restricted JUndefined (nowEmail ev) (playEmergencySound (audio ev) (nowSound ev) p))"
    using raiseAlarm_view by blast
  show ?thesis
    unfolding Got performCheck_restricted_def Let_def
    by (simp add: 1)
qed

lemma performCheck_ppe_view:
  "gateView (performCheck_ppe ev r p) =
     (if detects PPE r
      then gateView (sendEmailAlert PPE (detailOf PPE r) (nowEmail ev)
                      (playEmergencySound (audio ev) (nowSound ev) p))
      else gateView p)"
proof (cases r)
  case (Failed e)
  then show ?thesis by (simp add: performCheck_ppe_def)
next
  case (Got res)
  obtain p1 where 1: "raiseAlarm PPE ev (alertOptions ''ppe'' (''PPE Violation '' @ en_dash @ '' Hardhat Not Detected'')
       ''Worker detected without a hardhat in a mandatory PPE zone. Please intervene immediately.'') JUndefined p = Some p1"
     "gateView p1 = gateView (sendEmailAlert PPE JUndefined (nowEmail ev) (playEmergencySound (audio ev) (nowSound ev) p))"
    using raiseAlarm_view by blast
  show ?thesis
    unfolding Got performCheck_ppe_def Let_def
    by (simp add: 1 del: append.simps)
qed

lemma performCheck_view:
  "gateView (performCheck d ev r p) =
     (if detects d r
      then gateView (sendEmailAlert d (detailOf d r) (nowEmail ev)
                      (playEmergencySound (audio ev) (nowSound ev) p))
      else gateView p)"
  by (cases d) (simp_all only: performCheck_def domain.case performCheck_smoking_view
      performCheck_unauthorized_view performCheck_restricted_view performCheck_ppe_view)

lemma view_untouched: "gateView p' = gateView p \<Longrightarrow> gates_untouched p p'"
  by (simp add: gateView_def gates_untouched_def)

lemma setText_None [simp]: "setText s None = None" by (simp add: setText_def)



lemma setText_map: "setText s el = map_option (\<lambda>l. l\<lparr>caption := s\<rparr>) el"
  by (cases el) (simp_all add: setText_def)

lemma status_only_silent:
  "no_popup p (p\<lparr>status := s\<rparr>)" "gates_untouched p (p\<lparr>status := s\<rparr>)"
  "no_popup p (p\<lparr>lastResult := s\<rparr>)" "gates_untouched p (p\<lparr>lastResult := s\<rparr>)"
  by (simp_all add: no_popup_def gates_untouched_def)






lemma unauthorized_popup_only_if:
  "alertLayer (performCheck_unauthorized ev r p) \<noteq> alertLayer p \<Longrightarrow> detects Unauthorized r"
  by (cases r)
     (auto simp: performCheck_unauthorized_def raiseAlarm_def Let_def split: if_splits sum.splits option.splits)

lemma unauthorized_gates_only_if:
  "\<not> gates_untouched p (performCheck_unauthorized ev r p) \<Longrightarrow> detects Unauthorized r"
proof (rule ccontr)
  assume "\<not> gates_untouched p (performCheck_unauthorized ev r p)" and "\<not> detects Unauthorized r"
  then show False
    using view_untouched [of "performCheck_unauthorized ev r p" p]
    by (simp add: performCheck_unauthorized_view)
qed

text \<open>
  Claim C9. On the unauthorized page a response with \<^verbatim>\<open>unauthorized\<close> true (truthy) and
  \<^verbatim>\<open>reason\<close> equal to \<^verbatim>\<open>"no_face"\<close> (the camera being available) only sets the
  text of the last-result element, to \<^verbatim>\<open>"Last result: No face detected."\<close>: no popup,
  both gates untouched. For any response, a popup or a touched gate implies that
  \<^verbatim>\<open>unauthorized\<close> is true and \<^verbatim>\<open>reason\<close> is not \<^verbatim>\<open>"no_face"\<close>; and when that
  holds (and the camera is available) the tick shows the popup, runs both throttled side
  effects and sets the last-result text to \<^verbatim>\<open>"Last result: UNAUTHORIZED (unknown person)."\<close>.
\<close>

theorem no_face_is_silent:
  "(truthy (res_unauthorized res) \<and> res_reason res = JStr ''no_face'' \<and>
    res_error res \<noteq> JStr ''camera_not_available'' \<longrightarrow>
      performCheck_unauthorized ev (Got res) p =
        p\<lparr>lastResult := map_option (\<lambda>l. l\<lparr>caption := ''Last result: No face detected.''\<rparr>) (lastResult p)\<rparr> \<and>
      no_popup p (performCheck_unauthorized ev (Got res) p) \<and>
      gates_untouched p (performCheck_unauthorized ev (Got res) p)) \<and>
   (\<not> no_popup p (performCheck_unauthorized ev r p) \<or> \<not> gates_untouched p (performCheck_unauthorized ev r p) \<longrightarrow>
      (\<exists>res. r = Got res \<and> truthy (res_unauthorized res) \<and> res_reason res \<noteq> JStr ''no_face'')) \<and>
   (truthy (res_unauthorized res) \<and> res_reason res \<noteq> JStr ''no_face'' \<and>
    res_error res \<noteq> JStr ''camera_not_available'' \<longrightarrow>
      (case showAlert (beep ev) (Some unauthorizedAlarm) (alertLayer p) of
         Inl e \<Rightarrow> False
       | Inr ui' \<Rightarrow>
           performCheck_unauthorized ev (Got res) p =
             (sendEmailAlert Unauthorized (JStr ''Unknown person'') (nowEmail ev)
               (playEmergencySound (audio ev) (nowSound ev) (p\<lparr>alertLayer := ui'\<rparr>)))
             \<lparr>lastResult := map_option (\<lambda>l. l\<lparr>caption := ''Last result: UNAUTHORIZED (unknown person).''\<rparr>)
                              (lastResult p)\<rparr>))"
proof -
  have a: "performCheck_unauthorized ev (Got res) p =
        p\<lparr>lastResult := map_option (\<lambda>l. l\<lparr>caption := ''Last result: No face detected.''\<rparr>) (lastResult p)\<rparr> \<and>
      no_popup p (performCheck_unauthorized ev (Got res) p) \<and>
      gates_untouched p (performCheck_unauthorized ev (Got res) p)"
    if h: "truthy (res_unauthorized res) \<and> res_reason res = JStr ''no_face'' \<and>
      res_error res \<noteq> JStr ''camera_not_available''"
  proof -
    have e: "performCheck_unauthorized ev (Got res) p =
        p\<lparr>lastResult := map_option (\<lambda>l. l\<lparr>caption := ''Last result: No face detected.''\<rparr>) (lastResult p)\<rparr>"
      using h by (simp add: performCheck_unauthorized_def setText_map)
    show ?thesis unfolding e by (simp add: status_only_silent)
  qed
  have d: "\<not> no_popup p (performCheck_unauthorized ev r p) \<or> \<not> gates_untouched p (performCheck_unauthorized ev r p) \<longrightarrow>
      (\<exists>res. r = Got res \<and> truthy (res_unauthorized res) \<and> res_reason res \<noteq> JStr ''no_face'')"
  proof
    assume "\<not> no_popup p (performCheck_unauthorized ev r p) \<or> \<not> gates_untouched p (performCheck_unauthorized ev r p)"
    then have "detects Unauthorized r"
      using unauthorized_popup_only_if unauthorized_gates_only_if by (auto simp: no_popup_def)
    then show "\<exists>res. r = Got res \<and> truthy (res_unauthorized res) \<and> res_reason res \<noteq> JStr ''no_face''"
      by (cases r) auto
  qed
  have e: "truthy (res_unauthorized res) \<and> res_reason res \<noteq> JStr ''no_face'' \<and>
    res_error res \<noteq> JStr ''camera_not_available'' \<longrightarrow>
      (case showAlert (beep ev) (Some unauthorizedAlarm) (alertLayer p) of
         Inl e \<Rightarrow> False
       | Inr ui' \<Rightarrow>
           performCheck_unauthorized ev (Got res) p =
             (sendEmailAlert Unauthorized (JStr ''Unknown person'') (nowEmail ev)
               (playEmergencySound (audio ev) (nowSound ev) (p\<lparr>alertLayer := ui'\<rparr>)))
             \<lparr>lastResult := map_option (\<lambda>l. l\<lparr>caption := ''Last result: UNAUTHORIZED (unknown person).''\<rparr>)
                              (lastResult p)\<rparr>)"
  proof
    assume h: "truthy (res_unauthorized res) \<and> res_reason res \<noteq> JStr ''no_face'' \<and>
      res_error res \<noteq> JStr ''camera_not_available''"
    obtain ui' where u: "showAlert (beep ev) (Some unauthorizedAlarm) (alertLayer p) = Inr ui'"
      unfolding unauthorizedAlarm_def using showAlert_alertOptions by blast
    show "case showAlert (beep ev) (Some unauthorizedAlarm) (alertLayer p) of
         Inl e \<Rightarrow> False
       | Inr ui' \<Rightarrow>
           performCheck_unauthorized ev (Got res) p =
             (sendEmailAlert Unauthorized (JStr ''Unknown person'') (nowEmail ev)
               (playEmergencySound (audio ev) (nowSound ev) (p\<lparr>alertLayer := ui'\<rparr>)))
             \<lparr>lastResult := map_option (\<lambda>l. l\<lparr>caption := ''Last result: UNAUTHORIZED (unknown person).''\<rparr>)
                              (lastResult p)\<rparr>"
      using h u
      by (simp add: performCheck_unauthorized_def raiseAlarm_def unauthorizedAlarm_def setText_map)
  qed
  from a d e show ?thesis by blast
qed

lemma view_fields:
  assumes "gateView a = gateView b"
  shows "lastEmergencySoundTime a = lastEmergencySoundTime b" "emergencyAudio a = emergencyAudio b"
    "soundPlays a = soundPlays b" "lastEmailAlertTime a = lastEmailAlertTime b"
    "emailPosts a = emailPosts b" "pending a = pending b" "cameraIndex a = cameraIndex b"
  using assms by (simp_all add: gateView_def)

lemma tick_sound:
  "soundPlays (performCheck d ev r p) =
      (if detects d r \<and> nowSound ev - lastEmergencySoundTime p \<ge> EMERGENCY_SOUND_COOLDOWN \<and>
          \<not> soundRaises (audio ev) p
       then soundPlays p @ [nowSound ev] else soundPlays p)"
  "lastEmergencySoundTime (performCheck d ev r p) =
      (if detects d r \<and> nowSound ev - lastEmergencySoundTime p \<ge> EMERGENCY_SOUND_COOLDOWN \<and>
          \<not> soundRaises (audio ev) p
       then nowSound ev else lastEmergencySoundTime p)"
proof -
  let ?q = "if detects d r
      then sendEmailAlert d (detailOf d r) (nowEmail ev) (playEmergencySound (audio ev) (nowSound ev) p)
      else p"
  have v: "gateView (performCheck d ev r p) = gateView ?q"
    by (simp add: performCheck_view)
  show "soundPlays (performCheck d ev r p) =
      (if detects d r \<and> nowSound ev - lastEmergencySoundTime p \<ge> EMERGENCY_SOUND_COOLDOWN \<and>
          \<not> soundRaises (audio ev) p
       then soundPlays p @ [nowSound ev] else soundPlays p)"
    unfolding view_fields(3) [OF v]
    by (simp add: playEmergencySound_def soundRaises_def Let_def)
  show "lastEmergencySoundTime (performCheck d ev r p) =
      (if detects d r \<and> nowSound ev - lastEmergencySoundTime p \<ge> EMERGENCY_SOUND_COOLDOWN \<and>
          \<not> soundRaises (audio ev) p
       then nowSound ev else lastEmergencySoundTime p)"
    unfolding view_fields(1) [OF v]
    by (simp add: playEmergencySound_def soundRaises_def Let_def)
qed

lemma tick_email:
  "emailPosts (performCheck d ev r p) =
      (if detects d r \<and> nowEmail ev - lastEmailAlertTime p \<ge> EMAIL_ALERT_COOLDOWN
       then emailPosts p @ [\<lparr>sentAt = nowEmail ev, url = emailUrl d, detail = detailOf d r,
                              camera = cameraIndex p\<rparr>]
       else emailPosts p)"
  "pending (performCheck d ev r p) =
      (if detects d r \<and> nowEmail ev - lastEmailAlertTime p \<ge> EMAIL_ALERT_COOLDOWN
       then pending p @ [\<lparr>sentAt = nowEmail ev, url = emailUrl d, detail = detailOf d r,
                              camera = cameraIndex p\<rparr>]
       else pending p)"
  "lastEmailAlertTime (performCheck d ev r p) = lastEmailAlertTime p"
proof -
  let ?q = "if detects d r
      then sendEmailAlert d (detailOf d r) (nowEmail ev) (playEmergencySound (audio ev) (nowSound ev) p)
      else p"
  have v: "gateView (performCheck d ev r p) = gateView ?q"
    by (simp add: performCheck_view)
  show "emailPosts (performCheck d ev r p) =
      (if detects d r \<and> nowEmail ev - lastEmailAlertTime p \<ge> EMAIL_ALERT_COOLDOWN
       then emailPosts p @ [\<lparr>sentAt = nowEmail ev, url = emailUrl d, detail = detailOf d r,
                              camera = cameraIndex p\<rparr>]
       else emailPosts p)"
    unfolding view_fields(5) [OF v]
    by (simp add: sendEmailAlert_def Let_def)
  show "pending (performCheck d ev r p) =
      (if detects d r \<and> nowEmail ev - lastEmailAlertTime p \<ge> EMAIL_ALERT_COOLDOWN
       then pending p @ [\<lparr>sentAt = nowEmail ev, url = emailUrl d, detail = detailOf d r,
                              camera = cameraIndex p\<rparr>]
       else pending p)"
    unfolding view_fields(6) [OF v]
    by (simp add: sendEmailAlert_def Let_def)
  show "lastEmailAlertTime (performCheck d ev r p) = lastEmailAlertTime p"
    unfolding view_fields(4) [OF v] by simp
qed

lemma emailReply_simps [simp]:
  "lastEmergencySoundTime (emailReply d now r p) = lastEmergencySoundTime p"
  "emergencyAudio (emailReply d now r p) = emergencyAudio p"
  "soundPlays (emailReply d now r p) = soundPlays p"
  "emailPosts (emailReply d now r p) = emailPosts p"
  "pending (emailReply d now r p) = pending p"
  by (simp_all add: emailReply_def split: fetched.splits)

lemma step_sound_other:
  assumes "\<And>ev r. e \<noteq> CheckDone ev r"
  shows "soundPlays (poll_step d e p) = soundPlays p"
    "lastEmergencySoundTime (poll_step d e p) = lastEmergencySoundTime p"
  using assms by (cases e; simp)+




lemma poll_run_append: "poll_run d (es @ fs) p = poll_run d fs (poll_run d es p)"
  by (simp add: poll_run_def)





lemmas poll_eval = poll_run_def performCheck_def performCheck_smoking_def performCheck_unauthorized_def
  performCheck_restricted_def performCheck_ppe_def raiseAlarm_def alertOptions_def
  playEmergencySound_def sendEmailAlert_def emailReply_def init_page_def tickAt_def smokeSeen_def
  emailOk_def emailFailed_def emailThrottled_def no_res_def EMERGENCY_SOUND_COOLDOWN_def EMAIL_ALERT_COOLDOWN_def
  errStatus_def errResponseStatus_def emailUrl_def setText_def setTextColor_def



lemma pending_issued_step:
  "set (pending p) \<subseteq> set (emailPosts p) \<Longrightarrow>
   set (pending (poll_step d e p)) \<subseteq> set (emailPosts (poll_step d e p))"
proof (cases e)
  case (CheckDone ev r)
  assume "set (pending p) \<subseteq> set (emailPosts p)"
  then show ?thesis using CheckDone by (auto simp: tick_email)
next
  case (EmailDone k r)
  assume "set (pending p) \<subseteq> set (emailPosts p)"
  then show ?thesis using EmailDone
    by (auto dest: in_set_takeD in_set_dropD)
qed simp_all

lemma pending_issued_run:
  "set (pending p) \<subseteq> set (emailPosts p) \<Longrightarrow>
   set (pending (poll_run d es p)) \<subseteq> set (emailPosts (poll_run d es p))"
proof (induction es arbitrary: p)
  case Nil
  then show ?case by (simp add: poll_run_def)
next
  case (Cons e es)
  from Cons.IH [OF pending_issued_step [OF Cons.prems]] show ?case
    by (simp add: poll_run_def)
qed

lemma sound_stamp_step:
  "lastEmergencySoundTime (poll_step d e p) = lastEmergencySoundTime p \<or>
    (\<exists>ev r. e = CheckDone ev r \<and> lastEmergencySoundTime (poll_step d e p) = nowSound ev \<and>
       soundPlays (poll_step d e p) = soundPlays p @ [nowSound ev])"
  by (cases e) (simp_all add: tick_sound)

lemma email_stamp_step:
  "lastEmailAlertTime (poll_step d e p) = lastEmailAlertTime p \<or>
    (\<exists>k res. e = EmailDone k (Got res) \<and> k < length (pending p) \<and>
       ((truthy (res_ok res) \<and> lastEmailAlertTime (poll_step d e p) = sentAt (pending p ! k)) \<or>
        (d = Restricted \<and> \<not> truthy (res_ok res) \<and> res_why res = JStr ''throttled'' \<and>
         lastEmailAlertTime (poll_step d e p) = sentAt (pending p ! k) - 59000)))"
proof (cases e)
  case (CheckDone ev r)
  then show ?thesis by (simp add: tick_email)
next
  case (EmailDone k r)
  show ?thesis
  proof (cases r)
    case (Failed err)
    then show ?thesis using EmailDone
      by (simp add: emailReply_def errStatus_def errResponseStatus_def)
  next
    case (Got res)
    then show ?thesis using EmailDone
      by (simp add: emailReply_def EMAIL_ALERT_COOLDOWN_def)
  qed
qed simp_all

text \<open>
  Claim C2, amended. An event changes the recorded time of the sound gate only if it is a
  tick that played the sound, and then to the time that tick read. An event changes the
  recorded time of the email gate only if it is the response to a pending request: to the
  time read when the request was issued if the response is \<^verbatim>\<open>ok\<close>, and, on the
  restricted page only, to that time minus 59000 ms if the response is not \<^verbatim>\<open>ok\<close> and
  its reason is \<^verbatim>\<open>"throttled"\<close>. Every pending request was issued in this session, and
  both times are 0 when the page is initialised.
\<close>

theorem timestamps_written_only_by_own_gate:
  "(lastEmergencySoundTime (poll_step d e p) = lastEmergencySoundTime p \<or>
      (\<exists>ev r. e = CheckDone ev r \<and> lastEmergencySoundTime (poll_step d e p) = nowSound ev \<and>
         soundPlays (poll_step d e p) = soundPlays p @ [nowSound ev])) \<and>
   (lastEmailAlertTime (poll_step d e p) = lastEmailAlertTime p \<or>
      (\<exists>k res. e = EmailDone k (Got res) \<and> k < length (pending p) \<and>
         ((truthy (res_ok res) \<and> lastEmailAlertTime (poll_step d e p) = sentAt (pending p ! k)) \<or>
          (d = Restricted \<and> \<not> truthy (res_ok res) \<and> res_why res = JStr ''throttled'' \<and>
           lastEmailAlertTime (poll_step d e p) = sentAt (pending p ! k) - 59000)))) \<and>
   set (pending (poll_run d es (init_page st lr l cam))) \<subseteq>
     set (emailPosts (poll_run d es (init_page st lr l cam))) \<and>
   lastEmergencySoundTime (init_page st lr l cam) = 0 \<and>
   lastEmailAlertTime (init_page st lr l cam) = 0"
proof -
  have "set (pending (init_page st lr l cam)) \<subseteq> set (emailPosts (init_page st lr l cam))"
    by (simp add: init_page_def)
  from pending_issued_run [OF this, of d es] sound_stamp_step [of d e p] email_stamp_step [of d e p]
  show ?thesis by (simp add: init_page_def)
qed

text \<open>
  Claim C2 as stated fails on the restricted page: a throttled response rewrites the
  recorded time to 41000, a time at which no request was issued (the only one was at 100000).
\<close>

theorem restricted_throttled_reply_rewrites_stamp_counterexample:
  "lastEmailAlertTime (poll_run Restricted
      [CheckDone (tickAt 100000) (Got intruderSeen), EmailDone 0 (Got emailThrottled)]
      (init_page None None True (JNum 0))) = 41000 \<and>
   map sentAt (emailPosts (poll_run Restricted
      [CheckDone (tickAt 100000) (Got intruderSeen), EmailDone 0 (Got emailThrottled)]
      (init_page None None True (JNum 0)))) = [100000]"
  by (simp add: poll_eval ui_eval intruderSeen_def)

theorem timestamps_written_only_by_own_gate_witness:
  "lastEmailAlertTime (poll_step Restricted (EmailDone 0 (Got emailThrottled))
      (poll_run Restricted [CheckDone (tickAt 100000) (Got intruderSeen)] (init_page None None True (JNum 0))))
     = sentAt (pending (poll_run Restricted [CheckDone (tickAt 100000) (Got intruderSeen)]
          (init_page None None True (JNum 0))) ! 0) - 59000 \<and>
   lastEmailAlertTime (poll_step Smoking (EmailDone 0 (Got emailOk))
      (poll_run Smoking [CheckDone (tickAt 100000) (Got smokeSeen)] (init_page None None True (JNum 0))))
     = 100000 \<and>
   lastEmergencySoundTime (poll_step Smoking (CheckDone (tickAt 100000) (Got smokeSeen))
      (init_page None None True (JNum 0))) = 100000"
proof -
  let ?p = "poll_run Restricted [CheckDone (tickAt 100000) (Got intruderSeen)] (init_page None None True (JNum 0))"
  let ?q = "poll_run Smoking [CheckDone (tickAt 100000) (Got smokeSeen)] (init_page None None True (JNum 0))"
  have a: "lastEmailAlertTime (poll_step Restricted (EmailDone 0 (Got emailThrottled)) ?p) \<noteq> lastEmailAlertTime ?p"
    "\<not> truthy (res_ok emailThrottled)"
    by (simp_all add: poll_eval ui_eval intruderSeen_def)
  have b: "lastEmailAlertTime (poll_step Smoking (EmailDone 0 (Got emailOk)) ?q) = 100000"
    "lastEmergencySoundTime (poll_step Smoking (CheckDone (tickAt 100000) (Got smokeSeen))
      (init_page None None True (JNum 0))) = 100000"
    by (simp_all add: poll_eval ui_eval)
  from timestamps_written_only_by_own_gate [of Restricted "EmailDone 0 (Got emailThrottled)" ?p] a
  have "lastEmailAlertTime (poll_step Restricted (EmailDone 0 (Got emailThrottled)) ?p)
     = sentAt (pending ?p ! 0) - 59000"
    by (auto simp del: poll_step.simps)
  with b show ?thesis by blast
qed

theorem no_face_is_silent_witness:
  "truthy (res_unauthorized noFace) \<and> res_reason noFace = JStr ''no_face'' \<and>
   res_error noFace \<noteq> JStr ''camera_not_available'' \<and>
   map_option caption (lastResult demoPage) = Some ''Last result: none'' \<and>
   map_option caption (lastResult (performCheck_unauthorized (tickAt 100000) (Got noFace) demoPage)) =
     Some ''Last result: No face detected.'' \<and>
   no_popup demoPage (performCheck_unauthorized (tickAt 100000) (Got noFace) demoPage) \<and>
   gates_untouched demoPage (performCheck_unauthorized (tickAt 100000) (Got noFace) demoPage) \<and>
   truthy (res_unauthorized strangerSeen) \<and> res_reason strangerSeen \<noteq> JStr ''no_face'' \<and>
   res_error strangerSeen \<noteq> JStr ''camera_not_available'' \<and>
   \<not> no_popup demoPage (performCheck_unauthorized (tickAt 100000) (Got strangerSeen) demoPage) \<and>
   map_option caption (lastResult (performCheck_unauthorized (tickAt 100000) (Got strangerSeen) demoPage)) =
     Some ''Last result: UNAUTHORIZED (unknown person).'' \<and>
   soundPlays (performCheck_unauthorized (tickAt 100000) (Got strangerSeen) demoPage) = [100000] \<and>
   map sentAt (emailPosts (performCheck_unauthorized (tickAt 100000) (Got strangerSeen) demoPage)) = [100000]"
proof -
  have h: "truthy (res_unauthorized noFace)" "res_reason noFace = JStr ''no_face''"
    "res_error noFace \<noteq> JStr ''camera_not_available''"
    by (simp_all add: noFace_def no_res_def)
  have g: "truthy (res_unauthorized strangerSeen)" "res_reason strangerSeen \<noteq> JStr ''no_face''"
    "res_error strangerSeen \<noteq> JStr ''camera_not_available''"
    by (simp_all add: strangerSeen_def no_res_def)
  have l: "lastResult demoPage = Some \<lparr>caption = ''Last result: none'', colour = []\<rparr>"
    by (simp add: demoPage_def init_page_def)
  have a: "performCheck_unauthorized (tickAt 100000) (Got noFace) demoPage =
        demoPage\<lparr>lastResult := map_option (\<lambda>l. l\<lparr>caption := ''Last result: No face detected.''\<rparr>)
                                  (lastResult demoPage)\<rparr> \<and>
      no_popup demoPage (performCheck_unauthorized (tickAt 100000) (Got noFace) demoPage) \<and>
      gates_untouched demoPage (performCheck_unauthorized (tickAt 100000) (Got noFace) demoPage)"
    using no_face_is_silent [where res = noFace and ev = "tickAt 100000" and p = demoPage] h by blast
  then have a1: "map_option caption
      (lastResult (performCheck_unauthorized (tickAt 100000) (Got noFace) demoPage)) =
     Some ''Last result: No face detected.''"
    by (simp add: l)
  from a have a2: "no_popup demoPage (performCheck_unauthorized (tickAt 100000) (Got noFace) demoPage)"
    "gates_untouched demoPage (performCheck_unauthorized (tickAt 100000) (Got noFace) demoPage)"
    by blast+
  obtain ui' where u: "showAlert (beep (tickAt 100000)) (Some unauthorizedAlarm) (alertLayer demoPage) = Inr ui'"
    unfolding unauthorizedAlarm_def using showAlert_alertOptions by blast
  have "case showAlert (beep (tickAt 100000)) (Some unauthorizedAlarm) (alertLayer demoPage) of
         Inl e \<Rightarrow> False
       | Inr ui' \<Rightarrow>
           performCheck_unauthorized (tickAt 100000) (Got strangerSeen) demoPage =
             (sendEmailAlert Unauthorized (JStr ''Unknown person'') (nowEmail (tickAt 100000))
               (playEmergencySound (audio (tickAt 100000)) (nowSound (tickAt 100000))
                  (demoPage\<lparr>alertLayer := ui'\<rparr>)))
             \<lparr>lastResult := map_option (\<lambda>l. l\<lparr>caption := ''Last result: UNAUTHORIZED (unknown person).''\<rparr>)
                              (lastResult demoPage)\<rparr>"
    using no_face_is_silent [where res = strangerSeen and ev = "tickAt 100000" and p = demoPage] g by blast
  then have b1: "map_option caption
      (lastResult (performCheck_unauthorized (tickAt 100000) (Got strangerSeen) demoPage)) =
     Some ''Last result: UNAUTHORIZED (unknown person).''"
    by (simp add: u l)
  have n: "\<not> no_popup demoPage (performCheck_unauthorized (tickAt 100000) (Got strangerSeen) demoPage)"
    by (simp add: no_popup_def poll_eval ui_eval strangerSeen_def demoPage_def)
  have e: "soundPlays (performCheck_unauthorized (tickAt 100000) (Got strangerSeen) demoPage) = [100000]"
    "map sentAt (emailPosts (performCheck_unauthorized (tickAt 100000) (Got strangerSeen) demoPage)) = [100000]"
    by (simp_all add: poll_eval ui_eval strangerSeen_def demoPage_def)
  from h g l a1 a2 b1 n e show ?thesis by simp
qed

section \<open>Frame capture: proofs\<close>

text \<open>
  Claim C7. \<^verbatim>\<open>captureFrame\<close> is a total function of its argument and of what the canvas
  does, so it never raises. It returns null for a null argument, for a video element whose
  \<^verbatim>\<open>videoWidth\<close> is zero, for an element that is neither a video nor an image, and
  whenever the canvas raises. For an image element whose natural width and displayed width
  are both zero it asks the canvas for a 640x480 frame and returns exactly what the canvas
  gives: the data URL, which is not null, when the canvas does not raise.
\<close>

theorem captureFrame_null_or_payload:
  "captureFrame cv None = None \<and>
   (tagName el = ''VIDEO'' \<and> videoWidth el = 0 \<longrightarrow> captureFrame cv (Some el) = None) \<and>
   (tagName el \<noteq> ''VIDEO'' \<and> tagName el \<noteq> ''IMG'' \<longrightarrow> captureFrame cv (Some el) = None) \<and>
   ((\<forall>w h. \<exists>e. cv el w h = Inl e) \<longrightarrow> captureFrame cv (Some el) = None) \<and>
   (tagName el = ''IMG'' \<and> naturalWidth el = 0 \<and> width el = 0 \<longrightarrow>
      captureFrame cv (Some el) = (case cv el 640 480 of Inl e \<Rightarrow> None | Inr dataUrl \<Rightarrow> Some dataUrl)) \<and>
   (tagName el = ''IMG'' \<and> naturalWidth el = 0 \<and> width el = 0 \<and> cv el 640 480 = Inr dataUrl \<longrightarrow>
      captureFrame cv (Some el) = Some dataUrl)"
proof -
  have a: "captureFrame cv None = None" by (simp add: captureFrame_def)
  have b: "tagName el = ''VIDEO'' \<and> videoWidth el = 0 \<longrightarrow> captureFrame cv (Some el) = None"
    by (simp add: captureFrame_def)
  have c: "tagName el \<noteq> ''VIDEO'' \<and> tagName el \<noteq> ''IMG'' \<longrightarrow> captureFrame cv (Some el) = None"
    by (simp add: captureFrame_def)
  have d: "(\<forall>w h. \<exists>e. cv el w h = Inl e) \<longrightarrow> captureFrame cv (Some el) = None"
  proof
    assume f: "\<forall>w h. \<exists>e. cv el w h = Inl e"
    have "(case cv el w h of Inl e \<Rightarrow> None | Inr u \<Rightarrow> Some u) = None" for w h
      using f [rule_format, of w h] by auto
    then show "captureFrame cv (Some el) = None"
      by (simp add: captureFrame_def Let_def split: option.splits prod.splits)
  qed
  have e: "tagName el = ''IMG'' \<and> naturalWidth el = 0 \<and> width el = 0 \<longrightarrow>
      captureFrame cv (Some el) = (case cv el 640 480 of Inl e \<Rightarrow> None | Inr dataUrl \<Rightarrow> Some dataUrl)"
    by (simp add: captureFrame_def)
  have f: "tagName el = ''IMG'' \<and> naturalWidth el = 0 \<and> width el = 0 \<and> cv el 640 480 = Inr dataUrl \<longrightarrow>
      captureFrame cv (Some el) = Some dataUrl"
    by (simp add: captureFrame_def)
  from a b c d e f show ?thesis by blast
qed

theorem captureFrame_null_or_payload_witness:
  "tagName (emptyElement ''IMG'') = ''IMG'' \<and> naturalWidth (emptyElement ''IMG'') = 0 \<and>
   width (emptyElement ''IMG'') = 0 \<and>
   blankCanvas (emptyElement ''IMG'') 640 480 = Inr ''data:image/jpeg;base64,/9j/4AAQ'' \<and>
   captureFrame blankCanvas (Some (emptyElement ''IMG'')) = Some ''data:image/jpeg;base64,/9j/4AAQ'' \<and>
   tagName (emptyElement ''VIDEO'') = ''VIDEO'' \<and> videoWidth (emptyElement ''VIDEO'') = 0 \<and>
   captureFrame blankCanvas (Some (emptyElement ''VIDEO'')) = None \<and>
   tagName (emptyElement ''DIV'') \<noteq> ''VIDEO'' \<and> tagName (emptyElement ''DIV'') \<noteq> ''IMG'' \<and>
   captureFrame blankCanvas (Some (emptyElement ''DIV'')) = None \<and>
   captureFrame noCanvas (Some (emptyElement ''IMG'')) = None"
proof -
  have h: "tagName (emptyElement ''IMG'') = ''IMG''" "naturalWidth (emptyElement ''IMG'') = 0"
    "width (emptyElement ''IMG'') = 0"
    "blankCanvas (emptyElement ''IMG'') 640 480 = Inr ''data:image/jpeg;base64,/9j/4AAQ''"
    "tagName (emptyElement ''VIDEO'') = ''VIDEO''" "videoWidth (emptyElement ''VIDEO'') = 0"
    "tagName (emptyElement ''DIV'') \<noteq> ''VIDEO''" "tagName (emptyElement ''DIV'') \<noteq> ''IMG''"
    "\<forall>w h. \<exists>e. noCanvas (emptyElement ''IMG'') w h = Inl e"
    by (simp_all add: emptyElement_def blankCanvas_def noCanvas_def)
  have 1: "captureFrame blankCanvas (Some (emptyElement ''IMG'')) = Some ''data:image/jpeg;base64,/9j/4AAQ''"
    using captureFrame_null_or_payload [of blankCanvas "emptyElement ''IMG''" "''data:image/jpeg;base64,/9j/4AAQ''"]
      h(1-4) by simp
  have 2: "captureFrame blankCanvas (Some (emptyElement ''VIDEO'')) = None"
    using captureFrame_null_or_payload [of blankCanvas "emptyElement ''VIDEO''"] h(5,6)
    by simp
  have 3: "captureFrame blankCanvas (Some (emptyElement ''DIV'')) = None"
    using captureFrame_null_or_payload [of blankCanvas "emptyElement ''DIV''"] h(7,8)
    by simp
  have 4: "captureFrame noCanvas (Some (emptyElement ''IMG'')) = None"
    using captureFrame_null_or_payload [of noCanvas "emptyElement ''IMG''"] h(9)
    by simp
  from h(1-8) 1 2 3 4 show ?thesis by simp
qed


section \<open>Camera attacher: proofs\<close>





lemma setStatus_length [simp]: "length (nodes (setStatus r msg d)) = length (nodes d)"
  by (simp add: setStatus_def Let_def split: option.splits)





lemma armFallback_nodes [simp]: "nodes (armFallback st ci d) = nodes d"
  by (simp add: armFallback_def split: option.splits)


lemma setHandlers_length [simp]: "length (nodes (setHandlers n st ci d)) = length (nodes d)"
  by (simp add: setHandlers_def)


lemma createImg_length [simp]: "length (nodes (createImg el u d)) = Suc (length (nodes d))"
  by (simp add: createImg_def)



lemma replaceChild_length:
  "replaceChild par n v d = Inr d' \<Longrightarrow> length (nodes d') = length (nodes d)"
  by (auto simp: replaceChild_def Let_def split: if_splits)



lemma attachSlot_cases:
  "attachSlot cis ss i (vs, d) =
     (case deref d (at vs i) of
        None \<Rightarrow> (vs, setStatus (at ss i) (''Camera '' @ toStr (camIndexOf cis i) @ '' element not found'') d)
      | Some v \<Rightarrow>
          if tagName (nodes d ! v) = ''VIDEO''
          then (case parentNode (nodes d ! v) of
                  None \<Rightarrow> (vs, setStatus (at ss i) (''Camera '' @ toStr (camIndexOf cis i) @ '' element not in DOM'') d)
                | Some par \<Rightarrow>
                    (case replaceChild par (length (nodes d)) v (createImg (nodes d ! v) (streamUrlOf (camIndexOf cis i)) d) of
                       Inl e \<Rightarrow> (vs, setStatus (at ss i) (''Camera '' @ toStr (camIndexOf cis i) @ '' setup failed'')
                                   (createImg (nodes d ! v) (streamUrlOf (camIndexOf cis i)) d))
                     | Inr d2 \<Rightarrow> (vs[i := Some (length (nodes d))],
                                  armFallback (at ss i) (camIndexOf cis i)
                                    (setHandlers (length (nodes d)) (at ss i) (camIndexOf cis i) d2))))
          else if tagName (nodes d ! v) = ''IMG''
          then (vs, armFallback (at ss i) (camIndexOf cis i)
                  (setHandlers v (at ss i) (camIndexOf cis i)
                     (d\<lparr>nodes := (nodes d)[v := (nodes d ! v)\<lparr>src := streamUrlOf (camIndexOf cis i)\<rparr>]\<rparr>)))
          else (vs, armFallback (at ss i) (camIndexOf cis i)
                  (setStatus (at ss i) (''Camera '' @ toStr (camIndexOf cis i) @ '' unsupported element type'') d)))"
  by (simp add: attachSlot_def Let_def split: option.splits sum.splits)



lemma createImg_new: "nodes (createImg el u d) ! length (nodes d) = newImg el u"
  by (simp add: createImg_def)



lemma attachSlot_grows:
  "length (nodes d) \<le> length (nodes (snd (attachSlot cis ss j (vs, d))))"
  by (auto simp: attachSlot_cases dest: replaceChild_length split: option.splits sum.splits)




lemma loop_grows:
  "length (nodes d) \<le> length (nodes (snd (fold (attachSlot cis ss) js (vs, d))))"
proof (induction js arbitrary: vs d)
  case Nil
  then show ?case by simp
next
  case (Cons j js)
  obtain vs1 d1 where s: "attachSlot cis ss j (vs, d) = (vs1, d1)" by (cases "attachSlot cis ss j (vs, d)")
  have "length (nodes d) \<le> length (nodes d1)" using attachSlot_grows [of d cis ss j vs] s by simp
  moreover have "length (nodes d1) \<le> length (nodes (snd (fold (attachSlot cis ss) js (vs1, d1))))"
    by (rule Cons.IH)
  ultimately show ?case using s by simp
qed



lemma fold_setStatus_length [simp]:
  "length (nodes (fold (\<lambda>el. setStatus el msg) rs d)) = length (nodes d)"
  by (induction rs arbitrary: d) simp_all


lemma attachDefaultSlot_cases:
  "attachDefaultSlot r d =
     (case deref d r of
        None \<Rightarrow> d
      | Some v \<Rightarrow>
          (case parentNode (nodes d ! v) of
             None \<Rightarrow> d
           | Some par \<Rightarrow>
               if tagName (nodes d ! v) = ''VIDEO''
               then (case replaceChild par (length (nodes d)) v (createImg (nodes d ! v) (streamUrlOf (JNum 0)) d) of
                       Inl e \<Rightarrow> createImg (nodes d ! v) (streamUrlOf (JNum 0)) d
                     | Inr d2 \<Rightarrow> d2)
               else if tagName (nodes d ! v) = ''IMG''
               then d\<lparr>nodes := (nodes d)[v := (nodes d ! v)\<lparr>src := streamUrlOf (JNum 0)\<rparr>]\<rparr>
               else d))"
  by (simp add: attachDefaultSlot_def Let_def split: option.splits)


lemma attachDefaultSlot_grows: "length (nodes d) \<le> length (nodes (attachDefaultSlot r d))"
  by (auto simp: attachDefaultSlot_cases dest: replaceChild_length split: option.splits sum.splits)


lemma default_loop_grows: "length (nodes d) \<le> length (nodes (fold attachDefaultSlot rs d))"
proof (induction rs arbitrary: d)
  case Nil
  then show ?case by simp
next
  case (Cons r rs)
  show ?case using attachDefaultSlot_grows [of d r] Cons.IH [of "attachDefaultSlot r d"] by simp
qed







































end
